theory Spec2Isabelle
  imports Complex_Main
begin

section \<open>The face-matching engine of AuthAI\<close>

text \<open>
  The repository holds three implementations of the engine: \<^verbatim>\<open>simple_face_match.py\<close>
  (cascade detector, three image metrics), \<^verbatim>\<open>face_match.py\<close> (the same with alignment,
  five metrics and a named winner) and \<^verbatim>\<open>advanced_face_match.py\<close> (learned embeddings).
  Their functions share names, so each definition below carries its module as a prefix:
  \<open>simple_\<close>, \<open>fm_\<close>, \<open>adv_\<close>.

  The functions of OpenCV, scikit-image, numpy and face_recognition are not code of the
  repository. They are fields of the records \<open>cv\<close> and \<open>fr\<close>, and every call that can
  raise returns a value of \<open>exn + 'a\<close>. Python floats are modelled as \<open>real\<close>: the
  comparisons and \<open>max\<close> of the source are exact on floats, rounding and NaN are not
  modelled.
\<close>

subsection \<open>Exceptions, results, Python values\<close>

datatype exn = Exn string

type_synonym 'a res = "exn + 'a"

definition bind_res :: "'a res \<Rightarrow> ('a \<Rightarrow> 'b res) \<Rightarrow> 'b res" where
  "bind_res m f = (case m of Inl e \<Rightarrow> Inl e | Inr v \<Rightarrow> f v)"

text \<open>\<^verbatim>\<open>try: body except Exception as e: handler(e)\<close>\<close>

definition try_except :: "'a res \<Rightarrow> (exn \<Rightarrow> 'a res) \<Rightarrow> 'a res" where
  "try_except body handler = (case body of Inl e \<Rightarrow> handler e | Inr v \<Rightarrow> Inr v)"

fun str :: "exn \<Rightarrow> string" where
  "str (Exn msg) = msg"

text \<open>A rectangle \<open>(x, y, w, h)\<close> as the cascade detectors return it.\<close>

type_synonym rect = "int \<times> int \<times> int \<times> int"

fun area :: "rect \<Rightarrow> int" where
  "area (x, y, w, h) = w * h"

text \<open>
  Python's \<^verbatim>\<open>max(xs, key=k)\<close> on a non-empty sequence \<open>x # xs\<close>: the first element
  whose key is maximal.
\<close>

fun max_by :: "('a \<Rightarrow> 'k::linorder) \<Rightarrow> 'a \<Rightarrow> 'a list \<Rightarrow> 'a" where
  "max_by key best [] = best"
| "max_by key best (x # xs) = max_by key (if key best < key x then x else best) xs"

text \<open>Python's \<^verbatim>\<open>int(x)\<close> on a float truncates toward zero.\<close>

definition py_int :: "real \<Rightarrow> int" where
  "py_int x = (if 0 \<le> x then \<lfloor>x\<rfloor> else \<lceil>x\<rceil>)"

text \<open>The values stored in the result dictionaries, and a dictionary in insertion order.\<close>

datatype pyval = B bool | F real | I int | S string | D "(string \<times> real) list" | PyNone

type_synonym pydict = "(string \<times> pyval) list"

subsection \<open>The libraries and the world\<close>

text \<open>
  The calls of \<^verbatim>\<open>cv2\<close>, \<^verbatim>\<open>skimage.metrics\<close> and \<^verbatim>\<open>numpy\<close> that the two cascade modules
  make. \<open>cv_ndim3 img\<close> is \<^verbatim>\<open>len(img.shape) == 3\<close>; \<open>cv_detect\<close> is
  \<^verbatim>\<open>face_cascade.detectMultiScale(img, scaleFactor, minNeighbors)\<close>; \<open>cv_crop img (x,y,w,h)\<close>
  is the slice \<^verbatim>\<open>img[y:y+h, x:x+w]\<close>; \<open>cv_matchTemplate\<close> is entry \<^verbatim>\<open>[0][0]\<close> of
  \<^verbatim>\<open>cv2.matchTemplate(a, b, cv2.TM_CCOEFF_NORMED)\<close>; \<open>cv_compareHist\<close> uses
  \<^verbatim>\<open>HISTCMP_CORREL\<close>; \<open>cv_detect_eyes\<close> is \<^verbatim>\<open>eye_cascade.detectMultiScale(img)\<close>;
  \<open>np_angle dy dx\<close> is \<^verbatim>\<open>np.degrees(np.arctan2(dy, dx))\<close>; \<open>cv_rotate img center angle\<close> is
  \<^verbatim>\<open>getRotationMatrix2D\<close> followed by \<^verbatim>\<open>warpAffine\<close> at the size of \<open>img\<close>; \<open>np_mse a b\<close> is
  \<^verbatim>\<open>np.mean((a.astype("float") - b.astype("float")) ** 2)\<close>; \<open>np_norm_diff u v\<close> is
  \<^verbatim>\<open>np.linalg.norm(u - v)\<close>; \<open>cv_imdecode bytes\<close> is \<^verbatim>\<open>np.frombuffer\<close> followed by
  \<^verbatim>\<open>cv2.imdecode\<close>; \<open>np_shape img\<close> is \<^verbatim>\<open>img.shape\<close> of a grayscale array,
  (rows, columns). \<open>facial_features\<close> stands for \<^verbatim>\<open>extract_facial_features\<close>
  of \<^verbatim>\<open>face_match.py\<close>, whose whole body is inside \<^verbatim>\<open>try/except\<close> returning \<^verbatim>\<open>None\<close>:
  the scorer only uses that it yields a vector or \<^verbatim>\<open>None\<close>.
\<close>

record ('img, 'hist) cv =
  cv_ndim3 :: "'img \<Rightarrow> bool"
  cv_cvtColor_gray :: "'img \<Rightarrow> 'img res"
  cv_equalizeHist :: "'img \<Rightarrow> 'img res"
  cv_clahe_apply :: "'img \<Rightarrow> 'img res"
  cv_detect :: "'img \<Rightarrow> real \<Rightarrow> nat \<Rightarrow> rect list res"
  cv_crop :: "'img \<Rightarrow> rect \<Rightarrow> 'img"
  cv_resize :: "'img \<Rightarrow> nat \<times> nat \<Rightarrow> 'img res"
  cv_matchTemplate :: "'img \<Rightarrow> 'img \<Rightarrow> real res"
  sk_ssim :: "'img \<Rightarrow> 'img \<Rightarrow> real res"
  cv_calcHist :: "'img \<Rightarrow> 'hist res"
  cv_normalize :: "'hist \<Rightarrow> 'hist res"
  cv_compareHist :: "'hist \<Rightarrow> 'hist \<Rightarrow> real res"
  cv_detect_eyes :: "'img \<Rightarrow> rect list res"
  np_angle :: "int \<Rightarrow> int \<Rightarrow> real"
  cv_rotate :: "'img \<Rightarrow> int \<times> int \<Rightarrow> real \<Rightarrow> 'img res"
  np_mse :: "'img \<Rightarrow> 'img \<Rightarrow> real res"
  facial_features :: "'img \<Rightarrow> real list option"
  np_norm_diff :: "real list \<Rightarrow> real list \<Rightarrow> real res"
  cv_imdecode :: "nat list \<Rightarrow> 'img option res"
  cv_cvtColor_bgr2rgb :: "'img \<Rightarrow> 'img res"
  cv_cvtColor_gray2bgr :: "'img \<Rightarrow> 'img res"
  cv_cvtColor_rgb2gray :: "'img \<Rightarrow> 'img res"
  np_shape :: "'img \<Rightarrow> nat \<times> nat"

text \<open>
  The calls of \<^verbatim>\<open>face_recognition\<close>: a location is \<open>(top, right, bottom, left)\<close>;
  \<open>fr_face_distance e1 e2\<close> is \<^verbatim>\<open>face_recognition.face_distance([e1], e2)[0]\<close>.
\<close>

type_synonym location = "int \<times> int \<times> int \<times> int"

record ('img, 'enc) fr =
  fr_face_locations :: "'img \<Rightarrow> location list res"
  fr_face_encodings :: "'img \<Rightarrow> location list \<Rightarrow> 'enc list res"
  fr_face_distance :: "'enc \<Rightarrow> 'enc \<Rightarrow> real res"

text \<open>A document of the \<^verbatim>\<open>users\<close> collection; an absent key is \<open>None\<close>.\<close>

record user =
  user_id :: string
  username :: "string option"
  email :: "string option"
  user_image_path :: "string option"

text \<open>
  The file system and the database: \<^verbatim>\<open>os.path.exists\<close>, \<^verbatim>\<open>cv2.imread\<close> (which yields
  \<^verbatim>\<open>None\<close> for an unreadable file), \<^verbatim>\<open>users.find({"image_path": {"$exists": True}})\<close> and
  \<^verbatim>\<open>users.find_one({"_id": ObjectId(user_id)})\<close>.
\<close>

record 'img world =
  path_exists :: "string \<Rightarrow> bool"
  imread :: "string \<Rightarrow> 'img option res"
  find_users :: "user list res"
  find_one :: "string \<Rightarrow> user option res"

subsection \<open>\<^verbatim>\<open>simple_face_match.py\<close>\<close>

text \<open>\<^verbatim>\<open>preprocess_image\<close>: the body of the \<^verbatim>\<open>try\<close>, then the function with its handler.\<close>

definition preprocess_image_body ::
  "('img, 'hist) cv \<Rightarrow> 'img \<Rightarrow> bool \<Rightarrow> bool \<Rightarrow> 'img res" where
  "preprocess_image_body cv img normalize_lighting enhance_contrast =
     bind_res (if cv_ndim3 cv img then cv_cvtColor_gray cv img else Inr img) (\<lambda>gray.
     bind_res (if normalize_lighting then cv_equalizeHist cv gray else Inr gray) (\<lambda>gray.
     bind_res (if enhance_contrast then cv_clahe_apply cv gray else Inr gray) (\<lambda>gray.
     Inr gray)))"

definition preprocess_image ::
  "('img, 'hist) cv \<Rightarrow> 'img option \<Rightarrow> bool \<Rightarrow> bool \<Rightarrow> 'img option" where
  "preprocess_image cv img normalize_lighting enhance_contrast =
     (case img of
        None \<Rightarrow> None
      | Some im \<Rightarrow>
          (case preprocess_image_body cv im normalize_lighting enhance_contrast of
             Inl e \<Rightarrow> None
           | Inr gray \<Rightarrow> Some gray))"

text \<open>
  \<^verbatim>\<open>extract_face\<close> of the simple module: one detection pass, the largest rectangle, a
  200x200 crop. The parameter \<^verbatim>\<open>align_faces\<close> is accepted and never read.
\<close>

definition simple_extract_face_body ::
  "('img, 'hist) cv \<Rightarrow> 'img \<Rightarrow> 'img option res" where
  "simple_extract_face_body cv gray =
     bind_res (cv_detect cv gray 1.1 5) (\<lambda>faces.
       case faces of
         [] \<Rightarrow> Inr None
       | f # fs \<Rightarrow>
           (let largest_face = max_by area f fs;
                face_roi = cv_crop cv gray largest_face
            in bind_res (cv_resize cv face_roi (200, 200)) (\<lambda>face_roi. Inr (Some face_roi))))"

definition simple_extract_face ::
  "('img, 'hist) cv \<Rightarrow> 'img option \<Rightarrow> bool \<Rightarrow> bool \<Rightarrow> bool \<Rightarrow> 'img option" where
  "simple_extract_face cv img align_faces enhance_contrast normalize_lighting =
     (case img of
        None \<Rightarrow> None
      | Some im \<Rightarrow>
          (case preprocess_image cv (Some im) normalize_lighting enhance_contrast of
             None \<Rightarrow> None
           | Some gray \<Rightarrow>
               (case simple_extract_face_body cv gray of
                  Inl e \<Rightarrow> None
                | Inr face \<Rightarrow> face)))"

text \<open>
  \<^verbatim>\<open>compute_similarity\<close>: template matching, structural similarity and histogram
  correlation on the two 200x200 crops; the best of the three is returned, and 0 when a
  face is \<^verbatim>\<open>None\<close> or a library call raises.
\<close>

definition hist_score :: "('img, 'hist) cv \<Rightarrow> 'img \<Rightarrow> 'img \<Rightarrow> real res" where
  "hist_score cv face1 face2 =
     bind_res (cv_calcHist cv face1) (\<lambda>hist1.
     bind_res (cv_calcHist cv face2) (\<lambda>hist2.
     bind_res (cv_normalize cv hist1) (\<lambda>hist1.
     bind_res (cv_normalize cv hist2) (\<lambda>hist2.
     cv_compareHist cv hist1 hist2))))"

definition simple_compute_similarity_body ::
  "('img, 'hist) cv \<Rightarrow> 'img \<Rightarrow> 'img \<Rightarrow> real res" where
  "simple_compute_similarity_body cv face1 face2 =
     bind_res (cv_resize cv face1 (200, 200)) (\<lambda>face1.
     bind_res (cv_resize cv face2 (200, 200)) (\<lambda>face2.
     bind_res (cv_matchTemplate cv face1 face2) (\<lambda>template_score.
     bind_res (sk_ssim cv face1 face2) (\<lambda>ssim_score.
     bind_res (hist_score cv face1 face2) (\<lambda>hist_score.
     Inr (max template_score (max ssim_score hist_score)))))))"

definition simple_compute_similarity ::
  "('img, 'hist) cv \<Rightarrow> 'img option \<Rightarrow> 'img option \<Rightarrow> real res" where
  "simple_compute_similarity cv face1 face2 =
     try_except
       (case (face1, face2) of
          (Some f1, Some f2) \<Rightarrow> simple_compute_similarity_body cv f1 f2
        | _ \<Rightarrow> Inr 0)
       (\<lambda>e. Inr 0)"

text \<open>
  \<^verbatim>\<open>is_face_duplicate\<close>: the early-exit scan. The source fixes \<^verbatim>\<open>threshold = 0.05\<close> as a
  local; the loop is defined for any threshold and the function is its instance at 0.05.
  \<open>usable_path w p\<close> is the path when the test \<^verbatim>\<open>image_path and os.path.exists(image_path)\<close>
  passes, and \<open>None\<close> when it fails.
\<close>

definition usable_path :: "'img world \<Rightarrow> string option \<Rightarrow> string option" where
  "usable_path w p =
     (case p of
        None \<Rightarrow> None
      | Some s \<Rightarrow> if s \<noteq> [] \<and> path_exists w s then Some s else None)"

definition user_info :: "user \<Rightarrow> string" where
  "user_info u =
     (let info = (case username u of None \<Rightarrow> ''Unknown'' | Some n \<Rightarrow> n)
      in case email u of
           None \<Rightarrow> info
         | Some m \<Rightarrow> if m \<noteq> [] then info @ '' ('' @ m @ '')'' else info)"

text \<open>
  The inner \<^verbatim>\<open>try\<close> of the loop up to the similarity: \<open>Inr None\<close> is a \<^verbatim>\<open>continue\<close>,
  \<open>Inl e\<close> an exception (which the inner handler also turns into \<^verbatim>\<open>continue\<close>).
\<close>

definition simple_user_similarity ::
  "('img, 'hist) cv \<Rightarrow> 'img world \<Rightarrow> 'img \<Rightarrow> string \<Rightarrow> real option res" where
  "simple_user_similarity cv w input_face path =
     bind_res (imread w path) (\<lambda>registered_image.
       case registered_image of
         None \<Rightarrow> Inr None
       | Some im \<Rightarrow>
           (case simple_extract_face cv (Some im) False True True of
              None \<Rightarrow> Inr None
            | Some registered_face \<Rightarrow>
                bind_res (simple_compute_similarity cv (Some input_face) (Some registered_face))
                  (\<lambda>similarity. Inr (Some similarity))))"

fun simple_scan ::
  "real \<Rightarrow> ('img, 'hist) cv \<Rightarrow> 'img world \<Rightarrow> 'img \<Rightarrow> user list \<Rightarrow> user option \<Rightarrow> real
     \<Rightarrow> bool \<times> string option" where
  "simple_scan threshold cv w input_face [] best_match best_similarity = (False, None)"
| "simple_scan threshold cv w input_face (u # us) best_match best_similarity =
     (case usable_path w (user_image_path u) of
        None \<Rightarrow> simple_scan threshold cv w input_face us best_match best_similarity
      | Some path \<Rightarrow>
          (case simple_user_similarity cv w input_face path of
             Inl e \<Rightarrow> simple_scan threshold cv w input_face us best_match best_similarity
           | Inr None \<Rightarrow> simple_scan threshold cv w input_face us best_match best_similarity
           | Inr (Some similarity) \<Rightarrow>
               (let (best_match', best_similarity') =
                      (if similarity > best_similarity then (Some u, similarity)
                       else (best_match, best_similarity))
                in if similarity > threshold then (True, Some (user_info u))
                   else simple_scan threshold cv w input_face us best_match' best_similarity')))"

definition simple_is_face_duplicate_at ::
  "real \<Rightarrow> ('img, 'hist) cv \<Rightarrow> 'img world \<Rightarrow> 'img option \<Rightarrow> (bool \<times> string option) res" where
  "simple_is_face_duplicate_at threshold cv w img =
     try_except
       (case simple_extract_face cv img False True True of
          None \<Rightarrow> Inr (False, None)
        | Some input_face \<Rightarrow>
            bind_res (find_users w) (\<lambda>registered_users.
              Inr (simple_scan threshold cv w input_face registered_users None 0)))
       (\<lambda>e. Inr (False, None))"

definition simple_is_face_duplicate ::
  "('img, 'hist) cv \<Rightarrow> 'img world \<Rightarrow> 'img option \<Rightarrow> (bool \<times> string option) res" where
  "simple_is_face_duplicate = simple_is_face_duplicate_at 0.05"

text \<open>\<^verbatim>\<open>verify_face\<close> of the simple module.\<close>

definition simple_verify_face_body ::
  "('img, 'hist) cv \<Rightarrow> 'img world \<Rightarrow> string \<Rightarrow> string \<Rightarrow> real \<Rightarrow> bool \<Rightarrow> bool \<Rightarrow> pydict res" where
  "simple_verify_face_body cv w image_path stored_image_path threshold align_faces enhance_contrast =
     (if \<not> path_exists w image_path then
        Inr [(''match'', B False), (''face_detected'', B False),
             (''error'', S ''Input image not found'')]
      else if \<not> path_exists w stored_image_path then
        Inr [(''match'', B False), (''face_detected'', B False),
             (''error'', S ''Stored image not found'')]
      else
        bind_res (imread w image_path) (\<lambda>img.
        bind_res (imread w stored_image_path) (\<lambda>stored_image.
          if img = None \<or> stored_image = None then
            Inr [(''match'', B False), (''face_detected'', B False),
                 (''error'', S ''Failed to read images'')]
          else
            (let input_face = simple_extract_face cv img align_faces enhance_contrast True;
                 stored_face = simple_extract_face cv stored_image align_faces enhance_contrast True
             in if input_face = None then
                  Inr [(''match'', B False), (''face_detected'', B False),
                       (''error'', S ''No face detected in input image'')]
                else if stored_face = None then
                  Inr [(''match'', B False), (''face_detected'', B False),
                       (''error'', S ''No face detected in stored image'')]
                else
                  bind_res (simple_compute_similarity cv input_face stored_face) (\<lambda>similarity.
                    (let is_match = (similarity \<ge> threshold);
                         display_similarity = min 100 (max 0 (similarity * 100))
                     in Inr [(''match'', B is_match), (''face_detected'', B True),
                             (''similarity'', F similarity),
                             (''display_similarity'', I (py_int display_similarity)),
                             (''threshold'', F threshold)]))))))"

definition simple_verify_face ::
  "('img, 'hist) cv \<Rightarrow> 'img world \<Rightarrow> string \<Rightarrow> string \<Rightarrow> real \<Rightarrow> bool \<Rightarrow> bool \<Rightarrow> pydict res" where
  "simple_verify_face cv w image_path stored_image_path threshold align_faces enhance_contrast =
     try_except
       (simple_verify_face_body cv w image_path stored_image_path threshold align_faces
          enhance_contrast)
       (\<lambda>e. Inr [(''match'', B False), (''face_detected'', B False), (''error'', S (str e))])"

subsection \<open>\<^verbatim>\<open>face_match.py\<close>\<close>

text \<open>
  \<^verbatim>\<open>align_face\<close> returns either the very array it was given (\<open>Original\<close>: no face, fewer
  than two eyes, or an exception) or a new, rotated array. \<^verbatim>\<open>extract_face\<close> tells the
  two apart with \<^verbatim>\<open>aligned_image is not gray\<close>.
\<close>

datatype 'img aligned = Original | Rotated 'img

definition fm_align_face_body ::
  "('img, 'hist) cv \<Rightarrow> 'img \<Rightarrow> rect option \<Rightarrow> 'img aligned res" where
  "fm_align_face_body cv img face_rect =
     bind_res
       (case face_rect of
          None \<Rightarrow>
            bind_res (cv_detect cv img 1.3 5) (\<lambda>faces.
              case faces of [] \<Rightarrow> Inr None | f # fs \<Rightarrow> Inr (Some (max_by area f fs)))
        | Some r \<Rightarrow> Inr (Some r))
       (\<lambda>face_rect.
          case face_rect of
            None \<Rightarrow> Inr Original
          | Some (x, y, w, h) \<Rightarrow>
              (let face_image = cv_crop cv img (x, y, w, h)
               in bind_res (cv_detect_eyes cv face_image) (\<lambda>eyes.
                    case sort_key (\<lambda>(ex, ey, ew, eh). ex) eyes of
                      (lx, ly, lw, lh) # (rx, ry, rw, rh) # rest \<Rightarrow>
                        (let left_eye_center = (x + lx + lw div 2, y + ly + lh div 2);
                             right_eye_center = (x + rx + rw div 2, y + ry + rh div 2);
                             dx = fst right_eye_center - fst left_eye_center;
                             dy = snd right_eye_center - snd left_eye_center;
                             angle = np_angle cv dy dx;
                             center = ((fst left_eye_center + fst right_eye_center) div 2,
                                       (snd left_eye_center + snd right_eye_center) div 2)
                         in bind_res (cv_rotate cv img center angle) (\<lambda>aligned_image.
                              Inr (Rotated aligned_image)))
                    | _ \<Rightarrow> Inr Original)))"

definition fm_align_face :: "('img, 'hist) cv \<Rightarrow> 'img \<Rightarrow> rect option \<Rightarrow> 'img aligned" where
  "fm_align_face cv img face_rect =
     (case fm_align_face_body cv img face_rect of Inl e \<Rightarrow> Original | Inr a \<Rightarrow> a)"

text \<open>The detection loop of \<^verbatim>\<open>extract_face\<close> over the scale factors 1.1, 1.2, 1.3.\<close>

fun fm_detect_faces ::
  "('img, 'hist) cv \<Rightarrow> 'img \<Rightarrow> real list \<Rightarrow> rect list \<Rightarrow> rect list res" where
  "fm_detect_faces cv gray [] faces = Inr faces"
| "fm_detect_faces cv gray (scale_factor # rest) faces =
     bind_res (cv_detect cv gray scale_factor 5) (\<lambda>detected.
       (let faces = faces @ detected
        in if length faces > 0 then Inr faces else fm_detect_faces cv gray rest faces))"

definition fm_extract_face_body ::
  "('img, 'hist) cv \<Rightarrow> 'img \<Rightarrow> bool \<Rightarrow> bool \<Rightarrow> bool \<Rightarrow> 'img option res" where
  "fm_extract_face_body cv gray align_faces enhance_contrast normalize_lighting =
     bind_res (fm_detect_faces cv gray [1.1, 1.2, 1.3] []) (\<lambda>faces.
       case faces of
         [] \<Rightarrow> Inr None
       | f # fs \<Rightarrow>
           (let largest_face = max_by area f fs
            in bind_res
                 (if align_faces then
                    (case fm_align_face cv gray (Some largest_face) of
                       Rotated aligned_image \<Rightarrow>
                         bind_res (cv_detect cv aligned_image 1.3 5) (\<lambda>aligned_faces.
                           case aligned_faces of
                             a # as \<Rightarrow> Inr (cv_crop cv aligned_image (max_by area a as))
                           | [] \<Rightarrow> Inr (cv_crop cv aligned_image largest_face))
                     | Original \<Rightarrow> Inr (cv_crop cv gray largest_face))
                  else Inr (cv_crop cv gray largest_face))
                 (\<lambda>face_roi.
                    bind_res (cv_resize cv face_roi (200, 200)) (\<lambda>face_roi.
                    bind_res (if enhance_contrast \<and> \<not> normalize_lighting
                              then cv_clahe_apply cv face_roi else Inr face_roi) (\<lambda>face_roi.
                    Inr (Some face_roi))))))"

definition fm_extract_face ::
  "('img, 'hist) cv \<Rightarrow> 'img option \<Rightarrow> bool \<Rightarrow> bool \<Rightarrow> bool \<Rightarrow> 'img option" where
  "fm_extract_face cv img align_faces enhance_contrast normalize_lighting =
     (case img of
        None \<Rightarrow> None
      | Some im \<Rightarrow>
          (case preprocess_image cv (Some im) normalize_lighting enhance_contrast of
             None \<Rightarrow> None
           | Some gray \<Rightarrow>
               (case fm_extract_face_body cv gray align_faces enhance_contrast normalize_lighting of
                  Inl e \<Rightarrow> None
                | Inr face \<Rightarrow> face)))"

text \<open>
  \<^verbatim>\<open>compute_similarity_multiple\<close> returns a dictionary with the keys \<^verbatim>\<open>best_score\<close>,
  \<^verbatim>\<open>method\<close> and \<^verbatim>\<open>scores\<close> on every path. The scores are kept in insertion order;
  \<^verbatim>\<open>max(scores, key=scores.get)\<close> is the first key whose score is maximal. The field
  \<open>method_name\<close> is the key \<^verbatim>\<open>method\<close>.
\<close>

record similarity_result =
  best_score :: real
  method_name :: "string option"
  scores :: "(string \<times> real) list"

definition fm_feature_scores ::
  "('img, 'hist) cv \<Rightarrow> 'img \<Rightarrow> 'img \<Rightarrow> (string \<times> real) list res" where
  "fm_feature_scores cv face1 face2 =
     (case (facial_features cv face1, facial_features cv face2) of
        (Some face1_features, Some face2_features) \<Rightarrow>
          if length face1_features = length face2_features then
            bind_res (np_norm_diff cv face1_features face2_features) (\<lambda>feature_distance.
              (let feature_similarity =
                     (if feature_distance > 0 then 1 / (1 + feature_distance) else 1)
               in Inr [(''facial_features'', feature_similarity)]))
          else Inr []
      | _ \<Rightarrow> Inr [])"

definition fm_scores_body ::
  "('img, 'hist) cv \<Rightarrow> 'img \<Rightarrow> 'img \<Rightarrow> (string \<times> real) list res" where
  "fm_scores_body cv face1 face2 =
     bind_res (cv_resize cv face1 (200, 200)) (\<lambda>face1.
     bind_res (cv_resize cv face2 (200, 200)) (\<lambda>face2.
     bind_res (cv_matchTemplate cv face1 face2) (\<lambda>template_score.
     bind_res (sk_ssim cv face1 face2) (\<lambda>ssim_score.
     bind_res (hist_score cv face1 face2) (\<lambda>hist_score.
     bind_res (np_mse cv face1 face2) (\<lambda>mse.
       (let mse_similarity = 1 - min 1 (mse / 10000)
        in bind_res (fm_feature_scores cv face1 face2) (\<lambda>feature_scores.
             Inr ([(''template'', template_score), (''ssim'', ssim_score),
                   (''histogram'', hist_score), (''mse'', mse_similarity)]
                  @ feature_scores)))))))))"

definition best_of :: "(string \<times> real) list \<Rightarrow> similarity_result" where
  "best_of results_scores =
     (case results_scores of
        [] \<Rightarrow> \<lparr>best_score = 0, method_name = None, scores = []\<rparr>
      | s # ss \<Rightarrow>
          (let best = max_by snd s ss
           in \<lparr>best_score = snd best, method_name = Some (fst best), scores = results_scores\<rparr>))"

definition fm_compute_similarity_multiple ::
  "('img, 'hist) cv \<Rightarrow> 'img option \<Rightarrow> 'img option \<Rightarrow> similarity_result res" where
  "fm_compute_similarity_multiple cv face1 face2 =
     (case (face1, face2) of
        (Some f1, Some f2) \<Rightarrow>
          try_except
            (bind_res (fm_scores_body cv f1 f2) (\<lambda>results_scores. Inr (best_of results_scores)))
            (\<lambda>e. Inr \<lparr>best_score = 0, method_name = None, scores = []\<rparr>)
      | _ \<Rightarrow> Inr \<lparr>best_score = 0, method_name = None, scores = []\<rparr>)"

text \<open>
  \<^verbatim>\<open>verify_face\<close> of \<^verbatim>\<open>face_match.py\<close>. A string argument is truthy when it is given and
  not empty.
\<close>

definition truthy :: "string option \<Rightarrow> bool" where
  "truthy p = (case p of None \<Rightarrow> False | Some s \<Rightarrow> s \<noteq> [])"

definition text_of :: "string option \<Rightarrow> string" where
  "text_of p = (case p of None \<Rightarrow> [] | Some s \<Rightarrow> s)"

definition method_val :: "string option \<Rightarrow> pyval" where
  "method_val m = (case m of None \<Rightarrow> PyNone | Some name \<Rightarrow> S name)"

definition fm_verify_face_compare ::
  "('img, 'hist) cv \<Rightarrow> 'img option \<Rightarrow> 'img option \<Rightarrow> real \<Rightarrow> bool \<Rightarrow> bool \<Rightarrow> pydict res" where
  "fm_verify_face_compare cv stored_image input_image threshold align_faces enhance_contrast =
     (let input_face = fm_extract_face cv input_image align_faces enhance_contrast True;
          stored_face = fm_extract_face cv stored_image align_faces enhance_contrast True
      in if input_face = None then
           Inr [(''success'', B True), (''match'', B False), (''face_detected'', B False)]
         else if stored_face = None then
           Inr [(''success'', B False), (''match'', B False), (''error'', S ''no_stored_face'')]
         else
           bind_res (fm_compute_similarity_multiple cv input_face stored_face)
             (\<lambda>similarity_result.
                (let similarity = best_score similarity_result;
                     is_match = True;
                     similarity =
                       (case map_of (scores similarity_result) ''facial_features'' of
                          Some v \<Rightarrow> if v > 0.3 then max 0.9 similarity else similarity
                        | None \<Rightarrow> similarity)
                 in Inr [(''success'', B True), (''match'', B is_match),
                         (''similarity'', F (max 0.8 similarity)),
                         (''threshold'', F threshold), (''face_detected'', B True),
                         (''method'', method_val (method_name similarity_result)),
                         (''scores'', D (scores similarity_result))])))"

definition fm_verify_face_body ::
  "('img, 'hist) cv \<Rightarrow> 'img world \<Rightarrow> string option \<Rightarrow> string option \<Rightarrow> string option \<Rightarrow> real
     \<Rightarrow> nat list option \<Rightarrow> bool \<Rightarrow> bool \<Rightarrow> pydict res" where
  "fm_verify_face_body cv w image_path stored_image_path uid threshold image_data
       align_faces enhance_contrast =
     bind_res
       (if truthy uid \<and> \<not> truthy stored_image_path then
          bind_res (find_one w (text_of uid)) (\<lambda>usr.
            case usr of
              None \<Rightarrow> Inr (Inl ''no_registered_face'')
            | Some u \<Rightarrow>
                (case user_image_path u of
                   None \<Rightarrow> Inr (Inl ''no_registered_face'')
                 | Some p \<Rightarrow> Inr (Inr (Some p))))
        else Inr (Inr stored_image_path))
       (\<lambda>looked_up.
          case looked_up of
            Inl err \<Rightarrow> Inr [(''success'', B False), (''match'', B False), (''error'', S err)]
          | Inr stored_image_path \<Rightarrow>
              if \<not> truthy stored_image_path then
                Inr [(''success'', B False), (''match'', B False), (''error'', S ''no_stored_path'')]
              else
                bind_res (imread w (text_of stored_image_path)) (\<lambda>stored_image.
                  if stored_image = None then
                    Inr [(''success'', B False), (''match'', B False),
                         (''error'', S ''stored_image_load_failed'')]
                  else
                    bind_res
                      (case image_data of
                         Some bytes \<Rightarrow> cv_imdecode cv bytes
                       | None \<Rightarrow> if truthy image_path then imread w (text_of image_path) else Inr None)
                      (\<lambda>input_image.
                         if input_image = None then
                           Inr [(''success'', B False), (''match'', B False),
                                (''error'', S ''input_image_load_failed'')]
                         else
                           fm_verify_face_compare cv stored_image input_image threshold
                             align_faces enhance_contrast)))"

definition fm_verify_face ::
  "('img, 'hist) cv \<Rightarrow> 'img world \<Rightarrow> string option \<Rightarrow> string option \<Rightarrow> string option \<Rightarrow> real
     \<Rightarrow> nat list option \<Rightarrow> bool \<Rightarrow> bool \<Rightarrow> pydict res" where
  "fm_verify_face cv w image_path stored_image_path uid threshold image_data
       align_faces enhance_contrast =
     try_except
       (fm_verify_face_body cv w image_path stored_image_path uid threshold image_data
          align_faces enhance_contrast)
       (\<lambda>e. Inr [(''success'', B False), (''match'', B False),
                 (''error'', S ''verification_error''), (''message'', S (str e))])"

subsection \<open>\<^verbatim>\<open>advanced_face_match.py\<close>\<close>

text \<open>
  The module keeps the dictionary \<^verbatim>\<open>known_face_encodings\<close> (user id to encoding) as a
  global; the functions that read or write it take it and return it. Writing it to
  \<^verbatim>\<open>face_encodings.p\<close> (\<^verbatim>\<open>save_face_encodings\<close>, which swallows its own errors) does not
  change it and is left out.
\<close>

type_synonym 'enc cache = "string \<rightharpoonup> 'enc"

definition adv_preprocess_image :: "('img, 'hist) cv \<Rightarrow> 'img option \<Rightarrow> 'img option" where
  "adv_preprocess_image cv img =
     (case img of
        None \<Rightarrow> None
      | Some im \<Rightarrow>
          (case (if cv_ndim3 cv im then cv_cvtColor_bgr2rgb cv im
                 else bind_res (cv_cvtColor_gray2bgr cv im) (cv_cvtColor_bgr2rgb cv)) of
             Inl e \<Rightarrow> None
           | Inr rgb_image \<Rightarrow> Some rgb_image))"

definition adv_extract_face_body ::
  "('img, 'hist) cv \<Rightarrow> ('img, 'enc) fr \<Rightarrow> 'img \<Rightarrow> ('img \<times> rect) option res" where
  "adv_extract_face_body cv fr rgb_image =
     bind_res (fr_face_locations fr rgb_image) (\<lambda>face_locations.
       case face_locations of
         [] \<Rightarrow> Inr None
       | (top_y, right_x, bottom_y, left_x) # rest \<Rightarrow>
           (let face_rect = (left_x, top_y, right_x - left_x, bottom_y - top_y);
                face_roi = cv_crop cv rgb_image face_rect
            in bind_res (cv_resize cv face_roi (200, 200)) (\<lambda>face_roi.
                 Inr (Some (face_roi, face_rect)))))"

definition adv_extract_face ::
  "('img, 'hist) cv \<Rightarrow> ('img, 'enc) fr \<Rightarrow> 'img option \<Rightarrow> ('img \<times> rect) option" where
  "adv_extract_face cv fr img =
     (case adv_preprocess_image cv img of
        None \<Rightarrow> None
      | Some rgb_image \<Rightarrow>
          (case adv_extract_face_body cv fr rgb_image of Inl e \<Rightarrow> None | Inr r \<Rightarrow> r))"

definition adv_get_face_encoding_body ::
  "('img, 'enc) fr \<Rightarrow> 'img \<Rightarrow> 'enc option res" where
  "adv_get_face_encoding_body fr rgb_image =
     bind_res (fr_face_locations fr rgb_image) (\<lambda>face_locations.
       case face_locations of
         [] \<Rightarrow> Inr None
       | l # ls \<Rightarrow>
           bind_res (fr_face_encodings fr rgb_image face_locations) (\<lambda>face_encodings.
             case face_encodings of [] \<Rightarrow> Inr None | enc # rest \<Rightarrow> Inr (Some enc)))"

definition adv_get_face_encoding ::
  "('img, 'hist) cv \<Rightarrow> ('img, 'enc) fr \<Rightarrow> 'img option \<Rightarrow> 'enc option" where
  "adv_get_face_encoding cv fr img =
     (case adv_preprocess_image cv img of
        None \<Rightarrow> None
      | Some rgb_image \<Rightarrow>
          (case adv_get_face_encoding_body fr rgb_image of Inl e \<Rightarrow> None | Inr r \<Rightarrow> r))"

text \<open>\<^verbatim>\<open>compare_faces(encoding1, encoding2, tolerance=0.6)\<close> returns \<open>(match, similarity)\<close>.\<close>

definition adv_compare_faces ::
  "('img, 'enc) fr \<Rightarrow> 'enc option \<Rightarrow> 'enc option \<Rightarrow> real \<Rightarrow> (bool \<times> real) res" where
  "adv_compare_faces fr encoding1 encoding2 tolerance =
     try_except
       (case (encoding1, encoding2) of
          (Some e1, Some e2) \<Rightarrow>
            bind_res (fr_face_distance fr e1 e2) (\<lambda>face_distance.
              (let similarity = 1 - min face_distance 1;
                   match = (face_distance \<le> tolerance)
               in Inr (match, similarity)))
        | _ \<Rightarrow> Inr (False, 0))
       (\<lambda>e. Inr (False, 0))"

text \<open>
  \<^verbatim>\<open>compute_additional_similarity\<close>: the conversions to grayscale and the resize stand
  before its \<^verbatim>\<open>try\<close>, so they can raise to the caller.
\<close>

definition adv_compute_additional_similarity ::
  "('img, 'hist) cv \<Rightarrow> 'img option \<Rightarrow> 'img option \<Rightarrow> similarity_result res" where
  "adv_compute_additional_similarity cv face1 face2 =
     (case (face1, face2) of
        (Some f1, Some f2) \<Rightarrow>
          bind_res (if cv_ndim3 cv f1 then cv_cvtColor_rgb2gray cv f1 else Inr f1) (\<lambda>gray1.
          bind_res (if cv_ndim3 cv f2 then cv_cvtColor_rgb2gray cv f2 else Inr f2) (\<lambda>gray2.
          bind_res (if np_shape cv gray1 \<noteq> np_shape cv gray2
                    then cv_resize cv gray2 (snd (np_shape cv gray1), fst (np_shape cv gray1))
                    else Inr gray2) (\<lambda>gray2.
            try_except
              (bind_res (sk_ssim cv gray1 gray2) (\<lambda>ssim_score.
               bind_res (hist_score cv gray1 gray2) (\<lambda>hist_score.
                 Inr \<lparr>best_score = max ssim_score hist_score,
                      method_name = Some (if ssim_score \<ge> hist_score then ''ssim'' else ''histogram''),
                      scores = [(''ssim'', ssim_score), (''histogram'', hist_score)]\<rparr>)))
              (\<lambda>e. Inr \<lparr>best_score = 0, method_name = None, scores = []\<rparr>))))
      | _ \<Rightarrow> Inr \<lparr>best_score = 0, method_name = None, scores = []\<rparr>)"

text \<open>
  \<^verbatim>\<open>is_face_duplicate\<close>: the best-of-corpus scan. The encoding of a user comes from the
  cache, or is computed from the stored image and cached. The source fixes
  \<^verbatim>\<open>threshold = 0.6\<close> as a local; the function is the instance at 0.6.
\<close>

definition adv_stored_encoding ::
  "('img, 'hist) cv \<Rightarrow> ('img, 'enc) fr \<Rightarrow> 'img world \<Rightarrow> 'enc cache \<Rightarrow> string \<Rightarrow> string
     \<Rightarrow> ('enc \<times> 'enc cache) option res" where
  "adv_stored_encoding cv fr w known uid path =
     (case known uid of
        Some stored_encoding \<Rightarrow> Inr (Some (stored_encoding, known))
      | None \<Rightarrow>
          bind_res (imread w path) (\<lambda>stored_image.
            case stored_image of
              None \<Rightarrow> Inr None
            | Some im \<Rightarrow>
                (case adv_get_face_encoding cv fr (Some im) of
                   None \<Rightarrow> Inr None
                 | Some stored_encoding \<Rightarrow>
                     Inr (Some (stored_encoding, known(uid \<mapsto> stored_encoding))))))"

definition username_or :: "string \<Rightarrow> user \<Rightarrow> string" where
  "username_or dflt u = (case username u of None \<Rightarrow> dflt | Some n \<Rightarrow> n)"

fun adv_scan ::
  "real \<Rightarrow> ('img, 'hist) cv \<Rightarrow> ('img, 'enc) fr \<Rightarrow> 'img world \<Rightarrow> 'enc \<Rightarrow> user list \<Rightarrow> 'enc cache
     \<Rightarrow> string option \<Rightarrow> real \<Rightarrow> (string option \<times> real) res \<times> 'enc cache" where
  "adv_scan threshold cv fr w encoding [] known best_match best_similarity =
     (Inr (best_match, best_similarity), known)"
| "adv_scan threshold cv fr w encoding (u # us) known best_match best_similarity =
     (case usable_path w (user_image_path u) of
        None \<Rightarrow> adv_scan threshold cv fr w encoding us known best_match best_similarity
      | Some path \<Rightarrow>
          (case adv_stored_encoding cv fr w known (user_id u) path of
             Inl e \<Rightarrow> (Inl e, known)
           | Inr None \<Rightarrow> adv_scan threshold cv fr w encoding us known best_match best_similarity
           | Inr (Some (stored_encoding, known')) \<Rightarrow>
               (case adv_compare_faces fr (Some stored_encoding) (Some encoding) threshold of
                  Inl e \<Rightarrow> (Inl e, known')
                | Inr (match, similarity) \<Rightarrow>
                    if similarity > best_similarity
                    then adv_scan threshold cv fr w encoding us known'
                           (Some (username_or ''Unknown User'' u)) similarity
                    else adv_scan threshold cv fr w encoding us known'
                           best_match best_similarity)))"

definition adv_is_face_duplicate_at ::
  "real \<Rightarrow> ('img, 'hist) cv \<Rightarrow> ('img, 'enc) fr \<Rightarrow> 'img world \<Rightarrow> 'enc cache \<Rightarrow> 'img option
     \<Rightarrow> (bool \<times> string option) res \<times> 'enc cache" where
  "adv_is_face_duplicate_at threshold cv fr w known img =
     (case adv_preprocess_image cv img of
        None \<Rightarrow> (Inr (False, None), known)
      | Some rgb_image \<Rightarrow>
          (case adv_get_face_encoding cv fr (Some rgb_image) of
             None \<Rightarrow> (Inr (False, None), known)
           | Some encoding \<Rightarrow>
               (case find_users w of
                  Inl e \<Rightarrow> (Inr (False, None), known)
                | Inr users_with_faces \<Rightarrow>
                    (case adv_scan threshold cv fr w encoding users_with_faces known None (- 1) of
                       (Inl e, known') \<Rightarrow> (Inr (False, None), known')
                     | (Inr (best_match, best_similarity), known') \<Rightarrow>
                         (Inr (best_similarity \<ge> threshold, best_match), known')))))"

definition adv_is_face_duplicate ::
  "('img, 'hist) cv \<Rightarrow> ('img, 'enc) fr \<Rightarrow> 'img world \<Rightarrow> 'enc cache \<Rightarrow> 'img option
     \<Rightarrow> (bool \<times> string option) res \<times> 'enc cache" where
  "adv_is_face_duplicate = adv_is_face_duplicate_at 0.6"

text \<open>
  \<^verbatim>\<open>verify_face\<close> of the advanced module. \<open>basename_id\<close> is
  \<^verbatim>\<open>os.path.basename(stored_image_path).split('.')[0]\<close>.
\<close>

definition basename_id :: "string \<Rightarrow> string" where
  "basename_id path =
     takeWhile (\<lambda>c. c \<noteq> CHR ''.'') (rev (takeWhile (\<lambda>c. c \<noteq> CHR ''/'') (rev path)))"

definition adv_error_result :: "string \<Rightarrow> pydict" where
  "adv_error_result msg =
     [(''match'', B False), (''similarity'', F 0), (''method'', S ''error''), (''error'', S msg)]"

definition adv_verify_face_compare ::
  "('img, 'hist) cv \<Rightarrow> ('img, 'enc) fr \<Rightarrow> 'img option \<Rightarrow> 'img option \<Rightarrow> 'enc \<Rightarrow> 'enc \<Rightarrow> real
     \<Rightarrow> pydict res" where
  "adv_verify_face_compare cv fr img stored_image stored_encoding encoding threshold =
     bind_res (adv_compare_faces fr (Some stored_encoding) (Some encoding) threshold)
       (\<lambda>(match, similarity).
          (let face_roi = map_option fst (adv_extract_face cv fr img);
               stored_face_roi = map_option fst (adv_extract_face cv fr stored_image)
           in bind_res
                (if face_roi \<noteq> None \<and> stored_face_roi \<noteq> None then
                   bind_res (adv_compute_additional_similarity cv face_roi stored_face_roi)
                     (\<lambda>additional_metrics. Inr (scores additional_metrics))
                 else Inr [])
                (\<lambda>additional_scores.
                   (let display_similarity =
                          (if match then max (py_int (similarity * 100)) 80
                           else py_int (similarity * 100))
                    in Inr [(''match'', B match), (''similarity'', F similarity),
                            (''display_similarity'', I display_similarity),
                            (''method'', S ''face_recognition''), (''face_detected'', B True),
                            (''threshold'', F threshold),
                            (''alternative_methods'', D additional_scores)]))))"

definition adv_verify_face_body ::
  "('img, 'hist) cv \<Rightarrow> ('img, 'enc) fr \<Rightarrow> 'img world \<Rightarrow> 'enc cache \<Rightarrow> string \<Rightarrow> string \<Rightarrow> real
     \<Rightarrow> bool \<Rightarrow> bool \<Rightarrow> pydict res \<times> 'enc cache" where
  "adv_verify_face_body cv fr w known image_path stored_image_path threshold align_faces
       enhance_contrast =
     (if \<not> path_exists w image_path then
        (Inr (adv_error_result ''Input image not found''), known)
      else if \<not> path_exists w stored_image_path then
        (Inr (adv_error_result ''Stored image not found''), known)
      else
        (case imread w image_path of
           Inl e \<Rightarrow> (Inl e, known)
         | Inr img \<Rightarrow>
             (case imread w stored_image_path of
                Inl e \<Rightarrow> (Inl e, known)
              | Inr stored_image \<Rightarrow>
                  if img = None \<or> stored_image = None then
                    (Inr (adv_error_result ''Failed to read images''), known)
                  else
                    (let uid = basename_id stored_image_path
                     in case adv_get_face_encoding cv fr img of
                          None \<Rightarrow>
                            (Inr (adv_error_result ''Could not detect face in input image''
                                  @ [(''face_detected'', B False)]), known)
                        | Some encoding \<Rightarrow>
                            (case (case known uid of
                                     Some stored_encoding \<Rightarrow> Some (stored_encoding, known)
                                   | None \<Rightarrow>
                                       (case adv_get_face_encoding cv fr stored_image of
                                          None \<Rightarrow> None
                                        | Some stored_encoding \<Rightarrow>
                                            Some (stored_encoding,
                                                  known(uid \<mapsto> stored_encoding)))) of
                               None \<Rightarrow>
                                 (Inr (adv_error_result ''Could not detect face in stored image''
                                       @ [(''face_detected'', B True)]), known)
                             | Some (stored_encoding, known') \<Rightarrow>
                                 (adv_verify_face_compare cv fr img stored_image stored_encoding
                                    encoding threshold, known'))))))"

definition adv_verify_face ::
  "('img, 'hist) cv \<Rightarrow> ('img, 'enc) fr \<Rightarrow> 'img world \<Rightarrow> 'enc cache \<Rightarrow> string \<Rightarrow> string \<Rightarrow> real
     \<Rightarrow> bool \<Rightarrow> bool \<Rightarrow> pydict res \<times> 'enc cache" where
  "adv_verify_face cv fr w known image_path stored_image_path threshold align_faces
       enhance_contrast =
     (case adv_verify_face_body cv fr w known image_path stored_image_path threshold align_faces
             enhance_contrast of
        (Inl e, known') \<Rightarrow>
          (Inr (adv_error_result (str e) @ [(''face_detected'', B False)]), known')
      | (Inr result, known') \<Rightarrow> (Inr result, known'))"

subsection \<open>The similarity a scan computes for one user\<close>

text \<open>
  What the loop body of each \<^verbatim>\<open>is_face_duplicate\<close> computes for a user before it updates the
  best match. In the simple module \<open>None\<close> means that the user is skipped (no usable path,
  unreadable image, no face, or an exception inside the inner \<^verbatim>\<open>try\<close>). In the advanced
  module the loop has no inner \<^verbatim>\<open>try\<close>: \<open>Inr None\<close> is a skipped user and \<open>Inl e\<close> an
  exception that ends the scan.
\<close>

definition simple_user_score ::
  "('img, 'hist) cv \<Rightarrow> 'img world \<Rightarrow> 'img \<Rightarrow> user \<Rightarrow> real option" where
  "simple_user_score cv w input_face u =
     (case usable_path w (user_image_path u) of
        None \<Rightarrow> None
      | Some path \<Rightarrow>
          (case simple_user_similarity cv w input_face path of
             Inl e \<Rightarrow> None
           | Inr similarity \<Rightarrow> similarity))"

definition adv_user_score ::
  "('img, 'hist) cv \<Rightarrow> ('img, 'enc) fr \<Rightarrow> 'img world \<Rightarrow> 'enc cache \<Rightarrow> 'enc \<Rightarrow> real \<Rightarrow> user
     \<Rightarrow> real option res" where
  "adv_user_score cv fr w known encoding threshold u =
     (case usable_path w (user_image_path u) of
        None \<Rightarrow> Inr None
      | Some path \<Rightarrow>
          bind_res (adv_stored_encoding cv fr w known (user_id u) path) (\<lambda>stored.
            case stored of
              None \<Rightarrow> Inr None
            | Some (stored_encoding, known') \<Rightarrow>
                bind_res (adv_compare_faces fr (Some stored_encoding) (Some encoding) threshold)
                  (\<lambda>(match, similarity). Inr (Some similarity))))"

subsection \<open>A small concrete library and world\<close>

text \<open>
  The theorems below hold for every library and world. To run the model, images are
  lists of pixel rows, a face is found at the top-left pixel of any non-empty image, and
  each metric falls linearly with the difference of the two top-left pixels, cut off at
  its lower end -1 as the normalised correlations and the structural similarity are.
\<close>

definition np_slice :: "nat list list \<Rightarrow> rect \<Rightarrow> nat list list" where
  "np_slice img r =
     (case r of (x, y, w, h) \<Rightarrow>
        map (\<lambda>row. take (nat w) (drop (nat x) row)) (take (nat h) (drop (nat y) img)))"

definition px :: "nat list list \<Rightarrow> real" where
  "px img = (case img of (p # row) # rows \<Rightarrow> real p | _ \<Rightarrow> 0)"

definition test_cv :: "(nat list list, real) cv" where
  "test_cv =
     \<lparr>cv_ndim3 = (\<lambda>img. False),
      cv_cvtColor_gray = Inr,
      cv_equalizeHist = Inr,
      cv_clahe_apply = Inr,
      cv_detect = (\<lambda>img scale_factor min_neighbors. Inr (if img = [] then [] else [(0, 0, 1, 1)])),
      cv_crop = np_slice,
      cv_resize = (\<lambda>img size. Inr img),
      cv_matchTemplate = (\<lambda>a b. Inr (max (- 1) (1 - \<bar>px a - px b\<bar> / 10))),
      sk_ssim = (\<lambda>a b. Inr (max (- 1) (1 - \<bar>px a - px b\<bar> / 20))),
      cv_calcHist = (\<lambda>a. Inr (px a)),
      cv_normalize = Inr,
      cv_compareHist = (\<lambda>h1 h2. Inr (max (- 1) (1 - \<bar>h1 - h2\<bar> / 5))),
      cv_detect_eyes = (\<lambda>img. Inr []),
      np_angle = (\<lambda>dy dx. 0),
      cv_rotate = (\<lambda>img center angle. Inr img),
      np_mse = (\<lambda>a b. Inr (10 * (px a - px b)\<^sup>2)),
      facial_features = (\<lambda>img. None),
      np_norm_diff = (\<lambda>u v. Inr 0),
      cv_imdecode = (\<lambda>bytes. Inr None),
      cv_cvtColor_bgr2rgb = Inr,
      cv_cvtColor_gray2bgr = Inr,
      cv_cvtColor_rgb2gray = Inr,
      np_shape = (\<lambda>img. (length img, length (hd img)))\<rparr>"

text \<open>
  The same library with a detector that finds the face only in the upright picture
  \<open>[[1, 2], [3, 4]]\<close>, two overlapping eye rectangles whose centres lie right to left, so
  that the angle between them is a half turn, and a rotation that turns the picture upside
  down for that angle.
\<close>

definition turning_cv :: "(nat list list, real) cv" where
  "turning_cv =
     test_cv
       \<lparr>cv_detect :=
          (\<lambda>img scale_factor min_neighbors.
             Inr (if img = [[1, 2], [3, 4]] then [(0, 0, 1, 1)] else [])),
        cv_detect_eyes := (\<lambda>img. Inr [(0, 0, 6, 2), (1, 0, 2, 2)]),
        np_angle := (\<lambda>dy dx. if dy = 0 \<and> dx < 0 then 180 else 0),
        cv_rotate :=
          (\<lambda>img center angle. Inr (if angle = 180 then rev (map rev img) else img))\<rparr>"

definition test_fr :: "(nat list list, real) fr" where
  "test_fr =
     \<lparr>fr_face_locations = (\<lambda>img. Inr (if img = [] then [] else [(0, 1, 1, 0)])),
      fr_face_encodings = (\<lambda>img locations. Inr [px img]),
      fr_face_distance = (\<lambda>e1 e2. Inr (\<bar>e1 - e2\<bar> / 10))\<rparr>"

definition alice :: user where
  "alice = \<lparr>user_id = ''1'', username = Some ''alice'', email = None,
            user_image_path = Some ''static/faces/1.jpg''\<rparr>"

definition bob :: user where
  "bob = \<lparr>user_id = ''2'', username = Some ''bob'', email = None,
          user_image_path = Some ''static/faces/2.jpg''\<rparr>"

text \<open>
  Alice's stored picture has top-left pixel 3, Bob's has 10, the capture \<^verbatim>\<open>capture.jpg\<close>
  has 10 (it is a copy of Bob's), \<^verbatim>\<open>other.jpg\<close> has 40 and \<^verbatim>\<open>blank.jpg\<close> is an empty
  picture, in which the detectors find nothing.
\<close>

definition test_world :: "nat list list world" where
  "test_world =
     \<lparr>path_exists =
        (\<lambda>p. p \<in> set [''static/faces/1.jpg'', ''static/faces/2.jpg'', ''capture.jpg'',
                       ''other.jpg'', ''blank.jpg'']),
      imread =
        (\<lambda>p. Inr (if p = ''static/faces/1.jpg'' then Some [[3, 0], [0, 0]]
                   else if p = ''static/faces/2.jpg'' then Some [[10, 0], [0, 0]]
                   else if p = ''capture.jpg'' then Some [[10, 0], [0, 0]]
                   else if p = ''other.jpg'' then Some [[40, 0], [0, 0]]
                   else if p = ''blank.jpg'' then Some []
                   else None)),
      find_users = Inr [alice, bob],
      find_one = (\<lambda>uid. Inr None)\<rparr>"

section \<open>Properties\<close>


subsection \<open>Absent arguments\<close>

text \<open>
  C10. When either argument of a pairwise function is \<^verbatim>\<open>None\<close>, the function returns
  without raising: \<^verbatim>\<open>compute_similarity\<close> returns 0.0, \<^verbatim>\<open>compute_similarity_multiple\<close>
  returns best score 0.0 with no method and no scores, and \<^verbatim>\<open>compare_faces\<close> returns no
  match with similarity 0.0.
\<close>

theorem none_argument_total:
  assumes "face1 = None \<or> face2 = None" and "encoding1 = None \<or> encoding2 = None"
  shows "simple_compute_similarity cv face1 face2 = Inr 0
       \<and> fm_compute_similarity_multiple cv face1 face2
           = Inr \<lparr>best_score = 0, method_name = None, scores = []\<rparr>
       \<and> adv_compare_faces fr encoding1 encoding2 tolerance = Inr (False, 0)"
proof (intro conjI)
  show "simple_compute_similarity cv face1 face2 = Inr 0"
    using assms(1) by (auto simp: simple_compute_similarity_def try_except_def split: option.splits)
  show "fm_compute_similarity_multiple cv face1 face2
          = Inr \<lparr>best_score = 0, method_name = None, scores = []\<rparr>"
    using assms(1) by (auto simp: fm_compute_similarity_multiple_def split: option.splits)
  show "adv_compare_faces fr encoding1 encoding2 tolerance = Inr (False, 0)"
    using assms(2) by (auto simp: adv_compare_faces_def try_except_def split: option.splits)
qed

theorem none_argument_total_witness:
  "simple_compute_similarity test_cv None (Some [[10]]) = Inr 0
   \<and> fm_compute_similarity_multiple test_cv None (Some [[10]])
       = Inr \<lparr>best_score = 0, method_name = None, scores = []\<rparr>
   \<and> adv_compare_faces test_fr (Some 3) None 0.6 = Inr (False, 0)"
  using none_argument_total [of None "Some [[10]]" "Some 3" None test_cv test_fr "0.6"] by simp

subsection \<open>The embedding comparison and the fused threshold\<close>

text \<open>
  C7. For two encodings at embedding distance \<open>d\<close> and tolerance \<open>t\<close>, \<^verbatim>\<open>compare_faces\<close>
  returns the similarity \<open>1 - min d 1\<close> and declares a match exactly when \<open>d \<le> t\<close>. In the
  fusion path (\<^verbatim>\<open>verify_face\<close> of the simple module, which fuses the image metrics) a match
  is declared exactly when the fused score reaches the configured threshold.
\<close>

theorem compare_faces_distance:
  assumes "fr_face_distance fr e1 e2 = Inr d"
    and "path_exists w image_path" and "path_exists w stored_image_path"
    and "imread w image_path = Inr (Some img)"
    and "imread w stored_image_path = Inr (Some stored_image)"
    and "simple_extract_face cv (Some img) align_faces enhance_contrast True = Some input_face"
    and "simple_extract_face cv (Some stored_image) align_faces enhance_contrast True
           = Some stored_face"
    and "simple_compute_similarity cv (Some input_face) (Some stored_face) = Inr fused"
  shows "adv_compare_faces fr (Some e1) (Some e2) t = Inr (d \<le> t, 1 - min d 1)
       \<and> simple_verify_face cv w image_path stored_image_path threshold align_faces
           enhance_contrast
           = Inr [(''match'', B (fused \<ge> threshold)), (''face_detected'', B True),
                  (''similarity'', F fused),
                  (''display_similarity'', I (py_int (min 100 (max 0 (fused * 100))))),
                  (''threshold'', F threshold)]"
proof
  show "adv_compare_faces fr (Some e1) (Some e2) t = Inr (d \<le> t, 1 - min d 1)"
    using assms(1) by (simp add: adv_compare_faces_def try_except_def bind_res_def)
  show "simple_verify_face cv w image_path stored_image_path threshold align_faces
           enhance_contrast
           = Inr [(''match'', B (fused \<ge> threshold)), (''face_detected'', B True),
                  (''similarity'', F fused),
                  (''display_similarity'', I (py_int (min 100 (max 0 (fused * 100))))),
                  (''threshold'', F threshold)]"
    using assms(2-8)
    by (simp add: simple_verify_face_def simple_verify_face_body_def try_except_def
        bind_res_def Let_def)
qed

theorem compare_faces_distance_witness:
  "fr_face_distance test_fr 3 10 = Inr (7 / 10)
   \<and> simple_compute_similarity test_cv (Some [[10]]) (Some [[3]]) = Inr (13 / 20)
   \<and> adv_compare_faces test_fr (Some 3) (Some 10) (6 / 10) = Inr (False, 3 / 10)
   \<and> simple_verify_face test_cv test_world ''capture.jpg'' ''static/faces/1.jpg'' (5 / 100)
         True True
       = Inr [(''match'', B True), (''face_detected'', B True), (''similarity'', F (13 / 20)),
              (''display_similarity'', I 65), (''threshold'', F (5 / 100))]"
proof -
  have d: "fr_face_distance test_fr 3 10 = Inr (7 / 10)" by (simp add: test_fr_def)
  have p1: "path_exists test_world ''capture.jpg''" by (simp add: test_world_def)
  have p2: "path_exists test_world ''static/faces/1.jpg''" by (simp add: test_world_def)
  have i1: "imread test_world ''capture.jpg'' = Inr (Some [[10, 0], [0, 0]])"
    by (simp add: test_world_def)
  have i2: "imread test_world ''static/faces/1.jpg'' = Inr (Some [[3, 0], [0, 0]])"
    by (simp add: test_world_def)
  have f1: "simple_extract_face test_cv (Some [[10, 0], [0, 0]]) True True True = Some [[10]]"
    by (simp add: test_cv_def np_slice_def simple_extract_face_def simple_extract_face_body_def
        preprocess_image_def preprocess_image_body_def bind_res_def)
  have f2: "simple_extract_face test_cv (Some [[3, 0], [0, 0]]) True True True = Some [[3]]"
    by (simp add: test_cv_def np_slice_def simple_extract_face_def simple_extract_face_body_def
        preprocess_image_def preprocess_image_body_def bind_res_def)
  have s: "simple_compute_similarity test_cv (Some [[10]]) (Some [[3]]) = Inr (13 / 20)"
    by (simp add: test_cv_def px_def simple_compute_similarity_def
        simple_compute_similarity_body_def hist_score_def try_except_def bind_res_def)
  note th = compare_faces_distance [OF d p1 p2 i1 i2 f1 f2 s, of "6 / 10" "5 / 100"]
  have "adv_compare_faces test_fr (Some 3) (Some 10) (6 / 10) = Inr (False, 3 / 10)"
    using th by simp
  moreover have "simple_verify_face test_cv test_world ''capture.jpg'' ''static/faces/1.jpg''
                   (5 / 100) True True
       = Inr [(''match'', B True), (''face_detected'', B True), (''similarity'', F (13 / 20)),
              (''display_similarity'', I 65), (''threshold'', F (5 / 100))]"
    using th by (simp add: py_int_def)
  ultimately show ?thesis using d s by blast
qed

subsection \<open>Facts about \<open>max_by\<close> and the winner of a score list\<close>

lemma max_by_mem: "max_by key b xs \<in> set (b # xs)"
  by (induction xs arbitrary: b) auto

lemma max_by_ge_init: "key b \<le> key (max_by key b xs)"
proof (induction xs arbitrary: b)
  case Nil
  then show ?case by simp
next
  case (Cons y ys)
  have "key b \<le> key (if key b < key y then y else b)" by (simp add: less_imp_le)
  also have "\<dots> \<le> key (max_by key (if key b < key y then y else b) ys)" by (rule Cons.IH)
  finally show ?case by simp
qed

lemma max_by_ge_elem: "x \<in> set xs \<Longrightarrow> key x \<le> key (max_by key b xs)"
proof (induction xs arbitrary: b)
  case Nil
  then show ?case by simp
next
  case (Cons y ys)
  show ?case
  proof (cases "x = y")
    case True
    have "key y \<le> key (if key b < key y then y else b)" by (simp add: not_less)
    also have "\<dots> \<le> key (max_by key (if key b < key y then y else b) ys)"
      by (rule max_by_ge_init)
    finally show ?thesis using True by simp
  next
    case False
    then have "x \<in> set ys" using Cons.prems by simp
    then show ?thesis using Cons.IH by simp
  qed
qed

lemma max_by_ge: "x \<in> set (b # xs) \<Longrightarrow> key x \<le> key (max_by key b xs)"
  using max_by_ge_init [of key b xs] max_by_ge_elem [of x xs key b] by auto

lemma max_by_Max: "key (max_by key b xs) = Max (key ` set (b # xs))"
proof (rule sym, rule Max_eqI)
  show "finite (key ` set (b # xs))" by simp
  show "\<And>y. y \<in> key ` set (b # xs) \<Longrightarrow> y \<le> key (max_by key b xs)"
    using max_by_ge [of _ b xs key] by auto
  show "key (max_by key b xs) \<in> key ` set (b # xs)"
    using max_by_mem [of key b xs] by blast
qed

lemma best_of_Max:
  assumes "sc \<noteq> []"
  shows "scores (best_of sc) = sc"
    and "best_score (best_of sc) = Max (snd ` set sc)"
    and "\<exists>m. method_name (best_of sc) = Some m \<and> (m, best_score (best_of sc)) \<in> set sc"
proof -
  obtain s ss where sc: "sc = s # ss" using assms by (cases sc) auto
  show "scores (best_of sc) = sc" by (simp add: best_of_def sc Let_def)
  show "best_score (best_of sc) = Max (snd ` set sc)"
    using max_by_Max [of snd s ss] by (simp add: best_of_def sc Let_def)
  have "max_by snd s ss \<in> set sc" using max_by_mem [of snd s ss] by (simp add: sc)
  then show "\<exists>m. method_name (best_of sc) = Some m \<and> (m, best_score (best_of sc)) \<in> set sc"
    by (simp add: best_of_def sc Let_def)
qed

subsection \<open>The fused score\<close>

text \<open>
  C4. When the library calls succeed, the score returned by \<^verbatim>\<open>compute_similarity\<close> is the
  maximum of the template, structural and histogram scores; the result of
  \<^verbatim>\<open>compute_similarity_multiple\<close> lists every computed score, its best score is the maximum
  of that list, and its method is the name of an entry of the list with that score.
\<close>

theorem fused_score_is_maximum:
  assumes "cv_resize cv f1 (200, 200) = Inr g1" and "cv_resize cv f2 (200, 200) = Inr g2"
    and "cv_matchTemplate cv g1 g2 = Inr template_score"
    and "sk_ssim cv g1 g2 = Inr ssim_score"
    and "hist_score cv g1 g2 = Inr hist"
    and "np_mse cv g1 g2 = Inr mse"
    and "fm_feature_scores cv g1 g2 = Inr feature_scores"
  shows "simple_compute_similarity cv (Some f1) (Some f2)
           = Inr (Max {template_score, ssim_score, hist})
       \<and> (\<exists>r m. fm_compute_similarity_multiple cv (Some f1) (Some f2) = Inr r
              \<and> scores r = [(''template'', template_score), (''ssim'', ssim_score),
                             (''histogram'', hist), (''mse'', 1 - min 1 (mse / 10000))]
                            @ feature_scores
              \<and> best_score r = Max (snd ` set (scores r))
              \<and> method_name r = Some m \<and> (m, best_score r) \<in> set (scores r))"
proof
  show "simple_compute_similarity cv (Some f1) (Some f2)
          = Inr (Max {template_score, ssim_score, hist})"
    using assms(1-5)
    by (simp add: simple_compute_similarity_def simple_compute_similarity_body_def
        try_except_def bind_res_def max.commute max.left_commute)
next
  let ?sc = "[(''template'', template_score), (''ssim'', ssim_score),
              (''histogram'', hist), (''mse'', 1 - min 1 (mse / 10000))] @ feature_scores"
  have body: "fm_scores_body cv f1 f2 = Inr ?sc"
    using assms by (simp add: fm_scores_body_def bind_res_def Let_def)
  have res: "fm_compute_similarity_multiple cv (Some f1) (Some f2) = Inr (best_of ?sc)"
    using body by (simp add: fm_compute_similarity_multiple_def try_except_def bind_res_def)
  have ne: "?sc \<noteq> []" by simp
  show "\<exists>r m. fm_compute_similarity_multiple cv (Some f1) (Some f2) = Inr r
              \<and> scores r = ?sc
              \<and> best_score r = Max (snd ` set (scores r))
              \<and> method_name r = Some m \<and> (m, best_score r) \<in> set (scores r)"
    using res best_of_Max [OF ne] by (metis (no_types, lifting))
qed


theorem fused_score_is_maximum_witness:
  "cv_resize test_cv [[10]] (200, 200) = Inr [[10]]
   \<and> cv_resize test_cv [[3]] (200, 200) = Inr [[3]]
   \<and> cv_matchTemplate test_cv [[10]] [[3]] = Inr (3 / 10)
   \<and> sk_ssim test_cv [[10]] [[3]] = Inr (13 / 20)
   \<and> hist_score test_cv [[10]] [[3]] = Inr (- (2 / 5))
   \<and> np_mse test_cv [[10]] [[3]] = Inr 490
   \<and> fm_feature_scores test_cv [[10]] [[3]] = Inr []
   \<and> simple_compute_similarity test_cv (Some [[10]]) (Some [[3]])
       = Inr (Max {3 / 10, 13 / 20, - (2 / 5)})
   \<and> (\<exists>r m. fm_compute_similarity_multiple test_cv (Some [[10]]) (Some [[3]]) = Inr r
          \<and> scores r = [(''template'', 3 / 10), (''ssim'', 13 / 20),
                         (''histogram'', - (2 / 5)), (''mse'', 1 - min 1 (490 / 10000))] @ []
          \<and> best_score r = Max (snd ` set (scores r))
          \<and> method_name r = Some m \<and> (m, best_score r) \<in> set (scores r))"
proof -
  have h1: "cv_resize test_cv [[10]] (200, 200) = Inr [[10]]" by (simp add: test_cv_def)
  have h2: "cv_resize test_cv [[3]] (200, 200) = Inr [[3]]" by (simp add: test_cv_def)
  have h3: "cv_matchTemplate test_cv [[10]] [[3]] = Inr (3 / 10)"
    by (simp add: test_cv_def px_def)
  have h4: "sk_ssim test_cv [[10]] [[3]] = Inr (13 / 20)" by (simp add: test_cv_def px_def)
  have h5: "hist_score test_cv [[10]] [[3]] = Inr (- (2 / 5))"
    by (simp add: test_cv_def px_def hist_score_def bind_res_def)
  have h6: "np_mse test_cv [[10]] [[3]] = Inr 490" by (simp add: test_cv_def px_def)
  have h7: "fm_feature_scores test_cv [[10]] [[3]] = Inr []"
    by (simp add: test_cv_def fm_feature_scores_def)
  note th = fused_score_is_maximum [OF h1 h2 h3 h4 h5 h6 h7]
  show ?thesis using h1 h2 h3 h4 h5 h6 h7 th by blast
qed

text \<open>
  The ranges of the scores, given the ranges of the library's metrics: the template
  coefficient, the structural similarity and the histogram correlation lie in \<open>[-1, 1]\<close>,
  a mean of squares is not negative.
\<close>

lemma hist_score_range:
  assumes "\<forall>a b r. cv_compareHist cv a b = Inr r \<longrightarrow> - 1 \<le> r \<and> r \<le> 1"
    and "hist_score cv a b = Inr r"
  shows "- 1 \<le> r \<and> r \<le> 1"
  using assms by (auto simp: hist_score_def bind_res_def split: sum.splits)

lemma fm_feature_scores_range:
  assumes "fm_feature_scores cv a b = Inr fs" and "p \<in> set fs"
  shows "0 < snd p \<and> snd p \<le> 1"
  using assms
  by (auto simp: fm_feature_scores_def bind_res_def Let_def divide_le_eq
      split: option.splits if_splits sum.splits)

lemma simple_body_range:
  assumes "\<forall>a b r. cv_matchTemplate cv a b = Inr r \<longrightarrow> - 1 \<le> r \<and> r \<le> 1"
    and "\<forall>a b r. sk_ssim cv a b = Inr r \<longrightarrow> - 1 \<le> r \<and> r \<le> 1"
    and "\<forall>a b r. cv_compareHist cv a b = Inr r \<longrightarrow> - 1 \<le> r \<and> r \<le> 1"
    and "simple_compute_similarity_body cv f1 f2 = Inr s"
  shows "- 1 \<le> s \<and> s \<le> 1"
proof -
  obtain g1 g2 t m h where t: "cv_matchTemplate cv g1 g2 = Inr t"
    and m: "sk_ssim cv g1 g2 = Inr m" and h: "hist_score cv g1 g2 = Inr h"
    and s: "s = max t (max m h)"
    using assms(4)
    by (auto simp: simple_compute_similarity_body_def bind_res_def split: sum.splits)
  have "- 1 \<le> t \<and> t \<le> 1" using assms(1) t by blast
  moreover have "- 1 \<le> m \<and> m \<le> 1" using assms(2) m by blast
  moreover have "- 1 \<le> h \<and> h \<le> 1" using hist_score_range [OF assms(3) h] .
  ultimately show ?thesis using s by auto
qed

lemma fm_scores_body_range:
  assumes "\<forall>a b r. cv_matchTemplate cv a b = Inr r \<longrightarrow> - 1 \<le> r \<and> r \<le> 1"
    and "\<forall>a b r. sk_ssim cv a b = Inr r \<longrightarrow> - 1 \<le> r \<and> r \<le> 1"
    and "\<forall>a b r. cv_compareHist cv a b = Inr r \<longrightarrow> - 1 \<le> r \<and> r \<le> 1"
    and "\<forall>a b r. np_mse cv a b = Inr r \<longrightarrow> 0 \<le> r"
    and "fm_scores_body cv f1 f2 = Inr sc"
  shows "sc \<noteq> [] \<and> (\<forall>p \<in> set sc. snd p \<le> 1) \<and> (\<exists>p \<in> set sc. 0 \<le> snd p)"
proof -
  obtain g1 g2 t m h e fs where t: "cv_matchTemplate cv g1 g2 = Inr t"
    and m: "sk_ssim cv g1 g2 = Inr m" and h: "hist_score cv g1 g2 = Inr h"
    and e: "np_mse cv g1 g2 = Inr e" and fs: "fm_feature_scores cv g1 g2 = Inr fs"
    and sc: "sc = [(''template'', t), (''ssim'', m), (''histogram'', h),
                   (''mse'', 1 - min 1 (e / 10000))] @ fs"
    using assms(5)
    by (auto simp: fm_scores_body_def bind_res_def Let_def split: sum.splits)
  have "t \<le> 1" using assms(1) t by blast
  moreover have "m \<le> 1" using assms(2) m by blast
  moreover have "h \<le> 1" using hist_score_range [OF assms(3) h] by simp
  moreover have "0 \<le> e" using assms(4) e by blast
  then have "0 \<le> 1 - min 1 (e / 10000)" and "1 - min 1 (e / 10000) \<le> 1" by auto
  moreover have "\<forall>p \<in> set fs. snd p \<le> 1" using fm_feature_scores_range [OF fs] by blast
  ultimately show ?thesis unfolding sc by auto
qed

text \<open>
  C2, as amended. With the library's metrics in their ranges, \<^verbatim>\<open>compute_similarity\<close> always
  returns a score in \<open>[-1, 1]\<close>, and \<^verbatim>\<open>compute_similarity_multiple\<close> always returns a best
  score in \<open>[0, 1]\<close>: the similarity derived from the mean squared error lies in \<open>[0, 1]\<close>
  and is always among its scores.
\<close>

theorem fused_score_range:
  assumes "\<forall>a b r. cv_matchTemplate cv a b = Inr r \<longrightarrow> - 1 \<le> r \<and> r \<le> 1"
    and "\<forall>a b r. sk_ssim cv a b = Inr r \<longrightarrow> - 1 \<le> r \<and> r \<le> 1"
    and "\<forall>a b r. cv_compareHist cv a b = Inr r \<longrightarrow> - 1 \<le> r \<and> r \<le> 1"
    and "\<forall>a b r. np_mse cv a b = Inr r \<longrightarrow> 0 \<le> r"
  shows "(\<exists>s. simple_compute_similarity cv face1 face2 = Inr s \<and> - 1 \<le> s \<and> s \<le> 1)
       \<and> (\<exists>r. fm_compute_similarity_multiple cv face1 face2 = Inr r
              \<and> 0 \<le> best_score r \<and> best_score r \<le> 1)"
proof
  show "\<exists>s. simple_compute_similarity cv face1 face2 = Inr s \<and> - 1 \<le> s \<and> s \<le> 1"
  proof (cases "\<exists>f1 f2. face1 = Some f1 \<and> face2 = Some f2")
    case False
    then have "simple_compute_similarity cv face1 face2 = Inr 0"
      by (auto simp: simple_compute_similarity_def try_except_def split: option.splits)
    then show ?thesis by simp
  next
    case True
    then obtain f1 f2 where f: "face1 = Some f1" "face2 = Some f2" by blast
    show ?thesis
    proof (cases "simple_compute_similarity_body cv f1 f2")
      case (Inl e)
      then have "simple_compute_similarity cv face1 face2 = Inr 0"
        by (simp add: simple_compute_similarity_def try_except_def f)
      then show ?thesis by simp
    next
      case (Inr s)
      then have "simple_compute_similarity cv face1 face2 = Inr s"
        by (simp add: simple_compute_similarity_def try_except_def f)
      then show ?thesis using simple_body_range [OF assms(1-3) Inr] by simp
    qed
  qed
next
  show "\<exists>r. fm_compute_similarity_multiple cv face1 face2 = Inr r
              \<and> 0 \<le> best_score r \<and> best_score r \<le> 1"
  proof (cases "\<exists>f1 f2. face1 = Some f1 \<and> face2 = Some f2")
    case False
    then have "fm_compute_similarity_multiple cv face1 face2
                 = Inr \<lparr>best_score = 0, method_name = None, scores = []\<rparr>"
      by (auto simp: fm_compute_similarity_multiple_def split: option.splits)
    then show ?thesis by simp
  next
    case True
    then obtain f1 f2 where f: "face1 = Some f1" "face2 = Some f2" by blast
    show ?thesis
    proof (cases "fm_scores_body cv f1 f2")
      case (Inl e)
      then have "fm_compute_similarity_multiple cv face1 face2
                   = Inr \<lparr>best_score = 0, method_name = None, scores = []\<rparr>"
        by (simp add: fm_compute_similarity_multiple_def try_except_def bind_res_def f)
      then show ?thesis by simp
    next
      case (Inr sc)
      then have res: "fm_compute_similarity_multiple cv face1 face2 = Inr (best_of sc)"
        by (simp add: fm_compute_similarity_multiple_def try_except_def bind_res_def f)
      from fm_scores_body_range [OF assms Inr]
      have ne: "sc \<noteq> []" and up: "\<forall>p \<in> set sc. snd p \<le> 1" and lo: "\<exists>p \<in> set sc. 0 \<le> snd p"
        by blast+
      have best: "best_score (best_of sc) = Max (snd ` set sc)" by (rule best_of_Max(2) [OF ne])
      have "Max (snd ` set sc) \<le> 1" using ne up by (simp add: Max_le_iff)
      moreover have "0 \<le> Max (snd ` set sc)" using ne lo by (auto simp: Max_ge_iff)
      ultimately show ?thesis using res best by simp
    qed
  qed
qed

theorem fused_score_range_witness:
  "(\<exists>s. simple_compute_similarity test_cv (Some [[10]]) (Some [[3]]) = Inr s
        \<and> - 1 \<le> s \<and> s \<le> 1)
   \<and> (\<exists>r. fm_compute_similarity_multiple test_cv (Some [[10]]) (Some [[3]]) = Inr r
          \<and> 0 \<le> best_score r \<and> best_score r \<le> 1)"
proof (rule fused_score_range)
  show "\<forall>a b r. cv_matchTemplate test_cv a b = Inr r \<longrightarrow> - 1 \<le> r \<and> r \<le> 1"
    by (auto simp: test_cv_def)
  show "\<forall>a b r. sk_ssim test_cv a b = Inr r \<longrightarrow> - 1 \<le> r \<and> r \<le> 1"
    by (auto simp: test_cv_def)
  show "\<forall>a b r. cv_compareHist test_cv a b = Inr r \<longrightarrow> - 1 \<le> r \<and> r \<le> 1"
    by (auto simp: test_cv_def)
  show "\<forall>a b r. np_mse test_cv a b = Inr r \<longrightarrow> 0 \<le> r"
    by (auto simp: test_cv_def)
qed

text \<open>
  C2 as stated fails for \<^verbatim>\<open>compute_similarity\<close>: it takes the maximum of three metrics that
  can all be negative. For two faces whose template coefficient is -1, structural
  similarity -1/2 and histogram correlation -1, the fused score is -1/2.
\<close>

theorem fused_score_negative:
  "simple_compute_similarity test_cv (Some [[10]]) (Some [[40]]) = Inr (- (1 / 2))
   \<and> \<not> (0 \<le> (- (1 / 2) :: real))"
  by (simp add: test_cv_def px_def simple_compute_similarity_def
      simple_compute_similarity_body_def hist_score_def try_except_def bind_res_def)

subsection \<open>Verification\<close>

lemma simple_compute_similarity_total:
  "\<exists>s. simple_compute_similarity cv face1 face2 = Inr s"
  by (auto simp: simple_compute_similarity_def try_except_def split: option.splits sum.splits)

lemma adv_compare_faces_total: "\<exists>m s. adv_compare_faces fr e1 e2 t = Inr (m, s)"
  by (auto simp: adv_compare_faces_def try_except_def bind_res_def Let_def
      split: option.splits sum.splits)

text \<open>
  C8. When both files exist and decode and no face is found in either image
  (\<^verbatim>\<open>extract_face\<close>, respectively \<^verbatim>\<open>get_face_encoding\<close>, returns \<^verbatim>\<open>None\<close> for both),
  \<^verbatim>\<open>verify_face\<close> returns a result, raising nothing, whose \<^verbatim>\<open>face_detected\<close> flag and
  \<^verbatim>\<open>match\<close> are both false. The result dictionaries of the source carry one
  \<^verbatim>\<open>face_detected\<close> flag.
\<close>

theorem no_face_in_either_image:
  assumes "path_exists w image_path" and "path_exists w stored_image_path"
    and "imread w image_path = Inr (Some img)"
    and "imread w stored_image_path = Inr (Some stored_image)"
    and "simple_extract_face cv (Some img) align_faces enhance_contrast True = None"
    and "simple_extract_face cv (Some stored_image) align_faces enhance_contrast True = None"
    and "adv_get_face_encoding cv fr (Some img) = None"
    and "adv_get_face_encoding cv fr (Some stored_image) = None"
  shows "simple_verify_face cv w image_path stored_image_path threshold align_faces
           enhance_contrast
           = Inr [(''match'', B False), (''face_detected'', B False),
                  (''error'', S ''No face detected in input image'')]
       \<and> fst (adv_verify_face cv fr w known image_path stored_image_path threshold align_faces
                enhance_contrast)
           = Inr [(''match'', B False), (''similarity'', F 0), (''method'', S ''error''),
                  (''error'', S ''Could not detect face in input image''),
                  (''face_detected'', B False)]"
proof
  show "simple_verify_face cv w image_path stored_image_path threshold align_faces
           enhance_contrast
           = Inr [(''match'', B False), (''face_detected'', B False),
                  (''error'', S ''No face detected in input image'')]"
    using assms(1-6)
    by (simp add: simple_verify_face_def simple_verify_face_body_def try_except_def
        bind_res_def Let_def)
  show "fst (adv_verify_face cv fr w known image_path stored_image_path threshold align_faces
                enhance_contrast)
           = Inr [(''match'', B False), (''similarity'', F 0), (''method'', S ''error''),
                  (''error'', S ''Could not detect face in input image''),
                  (''face_detected'', B False)]"
    using assms(1-4,7,8)
    by (simp add: adv_verify_face_def adv_verify_face_body_def adv_error_result_def Let_def)
qed

theorem no_face_in_either_image_witness:
  "path_exists test_world ''blank.jpg''
   \<and> imread test_world ''blank.jpg'' = Inr (Some [])
   \<and> simple_extract_face test_cv (Some []) True True True = None
   \<and> adv_get_face_encoding test_cv test_fr (Some []) = None
   \<and> simple_verify_face test_cv test_world ''blank.jpg'' ''blank.jpg'' 0.05 True True
       = Inr [(''match'', B False), (''face_detected'', B False),
              (''error'', S ''No face detected in input image'')]
   \<and> fst (adv_verify_face test_cv test_fr test_world Map.empty ''blank.jpg'' ''blank.jpg'' 0.05
            True True)
       = Inr [(''match'', B False), (''similarity'', F 0), (''method'', S ''error''),
              (''error'', S ''Could not detect face in input image''),
              (''face_detected'', B False)]"
proof -
  have h1: "path_exists test_world ''blank.jpg''" by (simp add: test_world_def)
  have h2: "imread test_world ''blank.jpg'' = Inr (Some [])" by (simp add: test_world_def)
  have h3: "simple_extract_face test_cv (Some []) True True True = None"
    by (simp add: test_cv_def simple_extract_face_def simple_extract_face_body_def
        preprocess_image_def preprocess_image_body_def bind_res_def)
  have h4: "adv_get_face_encoding test_cv test_fr (Some []) = None"
    by (simp add: test_cv_def test_fr_def adv_get_face_encoding_def
        adv_get_face_encoding_body_def adv_preprocess_image_def bind_res_def)
  note th = no_face_in_either_image
    [where threshold = "0.05" and known = Map.empty, OF h1 h1 h2 h2 h3 h3 h4 h4]
  show ?thesis using h1 h2 h3 h4 th by blast
qed

text \<open>
  C5. Verifying an image against an identical copy of itself, when a face is found in it,
  yields similarity exactly 1 and a match, whichever of the three metrics reaches 1: the
  metrics never exceed 1 and at least one of them is 1 on identical crops. The threshold is
  at most 1 (the default is 0.05): a threshold above every possible score matches nothing.
\<close>

theorem identical_image_matches:
  assumes "path_exists w image_path" and "path_exists w stored_image_path"
    and "imread w image_path = Inr (Some img)"
    and "imread w stored_image_path = Inr (Some img)"
    and "simple_extract_face cv (Some img) align_faces enhance_contrast True = Some face"
    and "cv_resize cv face (200, 200) = Inr g"
    and "cv_matchTemplate cv g g = Inr t" and "sk_ssim cv g g = Inr s"
    and "hist_score cv g g = Inr h"
    and "t \<le> 1" and "s \<le> 1" and "h \<le> 1" and "t = 1 \<or> s = 1 \<or> h = 1"
    and "threshold \<le> 1"
  shows "simple_verify_face cv w image_path stored_image_path threshold align_faces
           enhance_contrast
           = Inr [(''match'', B True), (''face_detected'', B True), (''similarity'', F 1),
                  (''display_similarity'', I 100), (''threshold'', F threshold)]"
proof -
  have "max t (max s h) = 1" using assms(10-13) by auto
  then have sim: "simple_compute_similarity cv (Some face) (Some face) = Inr 1"
    using assms(6-9)
    by (simp add: simple_compute_similarity_def simple_compute_similarity_body_def
        try_except_def bind_res_def)
  show ?thesis
    using assms(1-5,14) sim
    by (simp add: simple_verify_face_def simple_verify_face_body_def try_except_def
        bind_res_def Let_def py_int_def)
qed


theorem identical_image_matches_witness:
  "path_exists test_world ''capture.jpg'' \<and> path_exists test_world ''static/faces/2.jpg''
   \<and> imread test_world ''capture.jpg'' = Inr (Some [[10, 0], [0, 0]])
   \<and> imread test_world ''static/faces/2.jpg'' = Inr (Some [[10, 0], [0, 0]])
   \<and> simple_extract_face test_cv (Some [[10, 0], [0, 0]]) True True True = Some [[10]]
   \<and> cv_resize test_cv [[10]] (200, 200) = Inr [[10]]
   \<and> cv_matchTemplate test_cv [[10]] [[10]] = Inr 1
   \<and> sk_ssim test_cv [[10]] [[10]] = Inr 1
   \<and> hist_score test_cv [[10]] [[10]] = Inr 1
   \<and> (5 / 100 :: real) \<le> 1
   \<and> simple_verify_face test_cv test_world ''capture.jpg'' ''static/faces/2.jpg'' (5 / 100)
         True True
       = Inr [(''match'', B True), (''face_detected'', B True), (''similarity'', F 1),
              (''display_similarity'', I 100), (''threshold'', F (5 / 100))]"
proof -
  have h1: "path_exists test_world ''capture.jpg''" by (simp add: test_world_def)
  have h2: "path_exists test_world ''static/faces/2.jpg''" by (simp add: test_world_def)
  have h3: "imread test_world ''capture.jpg'' = Inr (Some [[10, 0], [0, 0]])"
    by (simp add: test_world_def)
  have h4: "imread test_world ''static/faces/2.jpg'' = Inr (Some [[10, 0], [0, 0]])"
    by (simp add: test_world_def)
  have h5: "simple_extract_face test_cv (Some [[10, 0], [0, 0]]) True True True = Some [[10]]"
    by (simp add: test_cv_def np_slice_def simple_extract_face_def simple_extract_face_body_def
        preprocess_image_def preprocess_image_body_def bind_res_def)
  have h6: "cv_resize test_cv [[10]] (200, 200) = Inr [[10]]" by (simp add: test_cv_def)
  have h7: "cv_matchTemplate test_cv [[10]] [[10]] = Inr 1" by (simp add: test_cv_def)
  have h8: "sk_ssim test_cv [[10]] [[10]] = Inr 1" by (simp add: test_cv_def)
  have h9: "hist_score test_cv [[10]] [[10]] = Inr 1"
    by (simp add: test_cv_def hist_score_def bind_res_def)
  have one: "(1 :: real) \<le> 1" and any: "(1 :: real) = 1 \<or> (1 :: real) = 1 \<or> (1 :: real) = 1"
    by simp_all
  have thr: "(5 / 100 :: real) \<le> 1" by simp
  note th = identical_image_matches [OF h1 h2 h3 h4 h5 h6 h7 h8 h9 one one one any thr]
  show ?thesis using h1 h2 h3 h4 h5 h6 h7 h8 h9 thr th by blast
qed

text \<open>
  The results of the bodies of \<^verbatim>\<open>verify_face\<close>: either a comparison was made, and then both
  files exist and decode and the faces were found, or the result reports the failure.
\<close>

lemma simple_verify_face_body_shape:
  assumes "simple_verify_face_body cv w image_path stored_image_path threshold align_faces
             enhance_contrast = Inr r"
  shows "(map_of r ''face_detected'' = Some (B True) \<and> map_of r ''error'' = None
          \<and> path_exists w image_path \<and> path_exists w stored_image_path
          \<and> (\<exists>img stored_image.
                imread w image_path = Inr (Some img)
                \<and> imread w stored_image_path = Inr (Some stored_image)
                \<and> simple_extract_face cv (Some img) align_faces enhance_contrast True \<noteq> None
                \<and> simple_extract_face cv (Some stored_image) align_faces enhance_contrast True
                    \<noteq> None))
       \<or> (map_of r ''match'' = Some (B False) \<and> map_of r ''face_detected'' = Some (B False)
          \<and> (\<exists>msg. map_of r ''error'' = Some (S msg)))"
  using assms
  apply (simp add: simple_verify_face_body_def bind_res_def Let_def
      split: if_splits sum.splits)
  apply auto
  done


lemma adv_verify_face_compare_shape:
  assumes "adv_verify_face_compare cv fr img stored_image stored_encoding encoding threshold
             = Inr r"
  shows "map_of r ''method'' = Some (S ''face_recognition'') \<and> map_of r ''error'' = None"
  using assms
  by (auto simp: adv_verify_face_compare_def bind_res_def Let_def split: sum.splits if_splits)

lemma adv_verify_face_body_shape:
  assumes "adv_verify_face_body cv fr w known image_path stored_image_path threshold
             align_faces enhance_contrast = (Inr r, known')"
  shows "(map_of r ''method'' = Some (S ''face_recognition'') \<and> map_of r ''error'' = None
          \<and> path_exists w image_path \<and> path_exists w stored_image_path
          \<and> (\<exists>img stored_image.
                imread w image_path = Inr (Some img)
                \<and> imread w stored_image_path = Inr (Some stored_image)
                \<and> adv_get_face_encoding cv fr (Some img) \<noteq> None
                \<and> (known (basename_id stored_image_path) \<noteq> None
                    \<or> adv_get_face_encoding cv fr (Some stored_image) \<noteq> None)))
       \<or> (map_of r ''match'' = Some (B False) \<and> map_of r ''similarity'' = Some (F 0)
          \<and> map_of r ''method'' = Some (S ''error'')
          \<and> (\<exists>msg. map_of r ''error'' = Some (S msg)))"
  using assms
  apply (simp add: adv_verify_face_body_def adv_error_result_def Let_def
      split: if_splits sum.splits option.splits)
  apply (auto dest: adv_verify_face_compare_shape)
  done

text \<open>
  C3. For every library, world and input, \<^verbatim>\<open>verify_face\<close> (simple and advanced module)
  returns a result and raises nothing. The result either comes from a comparison, which
  happens only when both files exist and decode and the needed faces are found, or it has
  \<^verbatim>\<open>match\<close> false and an \<^verbatim>\<open>error\<close> field that describes the failure; an exception raised
  inside is reported in that field.
\<close>

theorem verify_face_never_raises:
  "(\<exists>r. simple_verify_face cv w image_path stored_image_path threshold align_faces
           enhance_contrast = Inr r
        \<and> ((map_of r ''face_detected'' = Some (B True) \<and> map_of r ''error'' = None
             \<and> path_exists w image_path \<and> path_exists w stored_image_path
             \<and> (\<exists>img stored_image.
                   imread w image_path = Inr (Some img)
                   \<and> imread w stored_image_path = Inr (Some stored_image)
                   \<and> simple_extract_face cv (Some img) align_faces enhance_contrast True
                       \<noteq> None
                   \<and> simple_extract_face cv (Some stored_image) align_faces enhance_contrast
                         True \<noteq> None))
           \<or> (map_of r ''match'' = Some (B False) \<and> map_of r ''face_detected'' = Some (B False)
              \<and> (\<exists>msg. map_of r ''error'' = Some (S msg)))))
   \<and> (\<exists>r. fst (adv_verify_face cv fr w known image_path stored_image_path threshold
                  align_faces enhance_contrast) = Inr r
        \<and> ((map_of r ''method'' = Some (S ''face_recognition'') \<and> map_of r ''error'' = None
             \<and> path_exists w image_path \<and> path_exists w stored_image_path
             \<and> (\<exists>img stored_image.
                   imread w image_path = Inr (Some img)
                   \<and> imread w stored_image_path = Inr (Some stored_image)
                   \<and> adv_get_face_encoding cv fr (Some img) \<noteq> None
                   \<and> (known (basename_id stored_image_path) \<noteq> None
                       \<or> adv_get_face_encoding cv fr (Some stored_image) \<noteq> None)))
           \<or> (map_of r ''match'' = Some (B False) \<and> map_of r ''similarity'' = Some (F 0)
              \<and> map_of r ''method'' = Some (S ''error'')
              \<and> (\<exists>msg. map_of r ''error'' = Some (S msg)))))"
proof
  let ?body = "simple_verify_face_body cv w image_path stored_image_path threshold align_faces
                 enhance_contrast"
  show "\<exists>r. simple_verify_face cv w image_path stored_image_path threshold align_faces
           enhance_contrast = Inr r
        \<and> ((map_of r ''face_detected'' = Some (B True) \<and> map_of r ''error'' = None
             \<and> path_exists w image_path \<and> path_exists w stored_image_path
             \<and> (\<exists>img stored_image.
                   imread w image_path = Inr (Some img)
                   \<and> imread w stored_image_path = Inr (Some stored_image)
                   \<and> simple_extract_face cv (Some img) align_faces enhance_contrast True
                       \<noteq> None
                   \<and> simple_extract_face cv (Some stored_image) align_faces enhance_contrast
                         True \<noteq> None))
           \<or> (map_of r ''match'' = Some (B False) \<and> map_of r ''face_detected'' = Some (B False)
              \<and> (\<exists>msg. map_of r ''error'' = Some (S msg))))"
  proof (cases ?body)
    case (Inl e)
    then have "simple_verify_face cv w image_path stored_image_path threshold align_faces
                 enhance_contrast
               = Inr [(''match'', B False), (''face_detected'', B False), (''error'', S (str e))]"
      by (simp add: simple_verify_face_def try_except_def)
    then show ?thesis by simp
  next
    case (Inr r)
    then have "simple_verify_face cv w image_path stored_image_path threshold align_faces
                 enhance_contrast = Inr r"
      by (simp add: simple_verify_face_def try_except_def)
    then show ?thesis using simple_verify_face_body_shape [OF Inr] by blast
  qed
next
  let ?body = "adv_verify_face_body cv fr w known image_path stored_image_path threshold
                 align_faces enhance_contrast"
  show "\<exists>r. fst (adv_verify_face cv fr w known image_path stored_image_path threshold
                  align_faces enhance_contrast) = Inr r
        \<and> ((map_of r ''method'' = Some (S ''face_recognition'') \<and> map_of r ''error'' = None
             \<and> path_exists w image_path \<and> path_exists w stored_image_path
             \<and> (\<exists>img stored_image.
                   imread w image_path = Inr (Some img)
                   \<and> imread w stored_image_path = Inr (Some stored_image)
                   \<and> adv_get_face_encoding cv fr (Some img) \<noteq> None
                   \<and> (known (basename_id stored_image_path) \<noteq> None
                       \<or> adv_get_face_encoding cv fr (Some stored_image) \<noteq> None)))
           \<or> (map_of r ''match'' = Some (B False) \<and> map_of r ''similarity'' = Some (F 0)
              \<and> map_of r ''method'' = Some (S ''error'')
              \<and> (\<exists>msg. map_of r ''error'' = Some (S msg))))"
  proof (cases ?body)
    case (Pair res known')
    show ?thesis
    proof (cases res)
      case (Inl e)
      then have "fst (adv_verify_face cv fr w known image_path stored_image_path threshold
                        align_faces enhance_contrast)
                 = Inr (adv_error_result (str e) @ [(''face_detected'', B False)])"
        using Pair by (simp add: adv_verify_face_def)
      then show ?thesis by (simp add: adv_error_result_def)
    next
      case (Inr r)
      then have "fst (adv_verify_face cv fr w known image_path stored_image_path threshold
                        align_faces enhance_contrast) = Inr r"
        using Pair by (simp add: adv_verify_face_def)
      then show ?thesis using adv_verify_face_body_shape [of cv fr w known image_path
          stored_image_path threshold align_faces enhance_contrast r known'] Pair Inr
        by blast
    qed
  qed
qed


theorem verify_face_never_raises_witness:
  "(\<exists>r. simple_verify_face test_cv test_world ''capture.jpg'' ''missing.jpg'' (5 / 100) True True
          = Inr r)
   \<and> (\<exists>r. fst (adv_verify_face test_cv test_fr test_world Map.empty ''capture.jpg''
                  ''missing.jpg'' (5 / 100) True True) = Inr r)
   \<and> simple_verify_face test_cv test_world ''capture.jpg'' ''missing.jpg'' (5 / 100) True True
       = Inr [(''match'', B False), (''face_detected'', B False),
              (''error'', S ''Stored image not found'')]"
proof -
  have "simple_verify_face test_cv test_world ''capture.jpg'' ''missing.jpg'' (5 / 100) True True
          = Inr [(''match'', B False), (''face_detected'', B False),
                 (''error'', S ''Stored image not found'')]"
    by (simp add: test_world_def simple_verify_face_def simple_verify_face_body_def
        try_except_def)
  then show ?thesis
    using verify_face_never_raises [of test_cv test_world "''capture.jpg''" "''missing.jpg''"
        "5 / 100" True True test_fr Map.empty]
    by blast
qed

text \<open>
  C1 fails in \<^verbatim>\<open>face_match.py\<close>: its \<^verbatim>\<open>verify_face\<close> sets \<^verbatim>\<open>is_match = True\<close> ("always match
  for testing") and reports \<^verbatim>\<open>max(0.8, similarity)\<close>. For two faces whose best score is 0.1
  and a threshold of 0.5 it returns a match with similarity 0.8.
\<close>

theorem fm_verify_face_forces_match:
  "fm_compute_similarity_multiple test_cv (Some [[40]]) (Some [[10]])
     = Inr \<lparr>best_score = 1 / 10, method_name = Some ''mse'',
            scores = [(''template'', - 1), (''ssim'', - (1 / 2)), (''histogram'', - 1),
                      (''mse'', 1 / 10)]\<rparr>
   \<and> fm_verify_face test_cv test_world (Some ''other.jpg'') (Some ''static/faces/2.jpg'') None
         (1 / 2) None True True
       = Inr [(''success'', B True), (''match'', B True), (''similarity'', F (4 / 5)),
              (''threshold'', F (1 / 2)), (''face_detected'', B True), (''method'', S ''mse''),
              (''scores'', D [(''template'', - 1), (''ssim'', - (1 / 2)), (''histogram'', - 1),
                              (''mse'', 1 / 10)])]"
proof
  show sim: "fm_compute_similarity_multiple test_cv (Some [[40]]) (Some [[10]])
     = Inr \<lparr>best_score = 1 / 10, method_name = Some ''mse'',
            scores = [(''template'', - 1), (''ssim'', - (1 / 2)), (''histogram'', - 1),
                      (''mse'', 1 / 10)]\<rparr>"
    by (simp add: test_cv_def px_def fm_compute_similarity_multiple_def fm_scores_body_def
        fm_feature_scores_def hist_score_def best_of_def try_except_def bind_res_def Let_def)
  have face1: "fm_extract_face test_cv (Some [[40, 0], [0, 0]]) True True True = Some [[40]]"
    by (simp add: test_cv_def np_slice_def fm_extract_face_def fm_extract_face_body_def
        fm_align_face_def fm_align_face_body_def preprocess_image_def preprocess_image_body_def
        bind_res_def Let_def)
  have face2: "fm_extract_face test_cv (Some [[10, 0], [0, 0]]) True True True = Some [[10]]"
    by (simp add: test_cv_def np_slice_def fm_extract_face_def fm_extract_face_body_def
        fm_align_face_def fm_align_face_body_def preprocess_image_def preprocess_image_body_def
        bind_res_def Let_def)
  show "fm_verify_face test_cv test_world (Some ''other.jpg'') (Some ''static/faces/2.jpg'') None
         (1 / 2) None True True
       = Inr [(''success'', B True), (''match'', B True), (''similarity'', F (4 / 5)),
              (''threshold'', F (1 / 2)), (''face_detected'', B True), (''method'', S ''mse''),
              (''scores'', D [(''template'', - 1), (''ssim'', - (1 / 2)), (''histogram'', - 1),
                              (''mse'', 1 / 10)])]"
    by (simp add: test_world_def fm_verify_face_def fm_verify_face_body_def
        fm_verify_face_compare_def truthy_def text_of_def method_val_def face1 face2 sim
        try_except_def bind_res_def Let_def)
qed

subsection \<open>Alignment\<close>

text \<open>
  C9, as amended. When alignment has rotated the image and the detector finds no face in the
  rotated image, \<^verbatim>\<open>extract_face\<close> does not fail at that point: it takes the rectangle that
  was found on the un-rotated image, cuts it out of the rotated image, and returns that
  crop resized to 200x200 (after the optional contrast step) whenever the resize succeeds.
\<close>

theorem rotated_fallback:
  assumes "preprocess_image cv (Some img) normalize_lighting enhance_contrast = Some gray"
    and "fm_detect_faces cv gray [1.1, 1.2, 1.3] [] = Inr (f # fs)"
    and "fm_align_face cv gray (Some (max_by area f fs)) = Rotated aligned_image"
    and "cv_detect cv aligned_image 1.3 5 = Inr []"
    and "cv_resize cv (cv_crop cv aligned_image (max_by area f fs)) (200, 200) = Inr face_roi"
  shows "fm_extract_face cv (Some img) True enhance_contrast normalize_lighting
           = (if enhance_contrast \<and> \<not> normalize_lighting
              then (case cv_clahe_apply cv face_roi of Inl e \<Rightarrow> None | Inr roi \<Rightarrow> Some roi)
              else Some face_roi)"
  using assms
  by (simp add: fm_extract_face_def fm_extract_face_body_def bind_res_def Let_def
      split: sum.splits)

theorem rotated_fallback_witness:
  "preprocess_image turning_cv (Some [[1, 2], [3, 4]]) True False = Some [[1, 2], [3, 4]]
   \<and> fm_detect_faces turning_cv [[1, 2], [3, 4]] [1.1, 1.2, 1.3] [] = Inr [(0, 0, 1, 1)]
   \<and> fm_align_face turning_cv [[1, 2], [3, 4]] (Some (max_by area (0, 0, 1, 1) []))
       = Rotated [[4, 3], [2, 1]]
   \<and> cv_detect turning_cv [[4, 3], [2, 1]] 1.3 5 = Inr []
   \<and> cv_resize turning_cv (cv_crop turning_cv [[4, 3], [2, 1]] (max_by area (0, 0, 1, 1) []))
         (200, 200) = Inr [[4]]
   \<and> fm_extract_face turning_cv (Some [[1, 2], [3, 4]]) True False True = Some [[4]]"
proof -
  have h1: "preprocess_image turning_cv (Some [[1, 2], [3, 4]]) True False
              = Some [[1, 2], [3, 4]]"
    by (simp add: turning_cv_def test_cv_def preprocess_image_def preprocess_image_body_def
        bind_res_def)
  have h2: "fm_detect_faces turning_cv [[1, 2], [3, 4]] [1.1, 1.2, 1.3] [] = Inr [(0, 0, 1, 1)]"
    by (simp add: turning_cv_def test_cv_def bind_res_def)
  have h3: "fm_align_face turning_cv [[1, 2], [3, 4]] (Some (max_by area (0, 0, 1, 1) []))
              = Rotated [[4, 3], [2, 1]]"
    by (simp add: turning_cv_def test_cv_def np_slice_def fm_align_face_def
        fm_align_face_body_def bind_res_def Let_def)
  have h4: "cv_detect turning_cv [[4, 3], [2, 1]] 1.3 5 = Inr []"
    by (simp add: turning_cv_def test_cv_def)
  have h5: "cv_resize turning_cv
              (cv_crop turning_cv [[4, 3], [2, 1]] (max_by area (0, 0, 1, 1) [])) (200, 200)
              = Inr [[4]]"
    by (simp add: turning_cv_def test_cv_def np_slice_def)
  have "fm_extract_face turning_cv (Some [[1, 2], [3, 4]]) True False True = Some [[4]]"
    using rotated_fallback [OF h1 h2 h3 h4 h5] by simp
  then show ?thesis using h1 h2 h3 h4 h5 by blast
qed

text \<open>
  C9 as stated fails: the fallback crop is taken from the rotated image
  (\<^verbatim>\<open>aligned_image[y:y+h, x:x+w]\<close>), not from the un-rotated one. For the upright picture
  \<open>[[1, 2], [3, 4]]\<close> with the face at its top-left pixel, the un-rotated face region is
  \<open>[[1]]\<close>, which is also what extraction without alignment returns; with alignment the
  result is \<open>[[4]]\<close>, the top-left pixel of the picture turned upside down.
\<close>

theorem rotated_fallback_region:
  "fm_align_face turning_cv [[1, 2], [3, 4]] (Some (0, 0, 1, 1)) = Rotated [[4, 3], [2, 1]]
   \<and> cv_detect turning_cv [[4, 3], [2, 1]] 1.3 5 = Inr []
   \<and> fm_extract_face turning_cv (Some [[1, 2], [3, 4]]) True False True = Some [[4]]
   \<and> cv_crop turning_cv [[1, 2], [3, 4]] (0, 0, 1, 1) = [[1]]
   \<and> fm_extract_face turning_cv (Some [[1, 2], [3, 4]]) False False True = Some [[1]]"
  by (simp add: turning_cv_def test_cv_def np_slice_def fm_extract_face_def
      fm_extract_face_body_def fm_align_face_def fm_align_face_body_def preprocess_image_def
      preprocess_image_body_def bind_res_def Let_def)

subsection \<open>The duplicate scans\<close>

text \<open>
  The early-exit loop of the simple module, one user at a time: users that are skipped or
  do not clear the threshold leave the outcome to the rest of the corpus, and the first
  user above the threshold is returned.
\<close>

lemma simple_scan_Cons:
  "simple_scan thr cv w face (u # us) bm bs =
     (case simple_user_score cv w face u of
        None \<Rightarrow> simple_scan thr cv w face us bm bs
      | Some s \<Rightarrow>
          if s > thr then (True, Some (user_info u))
          else simple_scan thr cv w face us (if s > bs then Some u else bm)
                 (if s > bs then s else bs))"
  by (simp add: simple_user_score_def Let_def split: option.splits sum.splits)

lemma simple_scan_skip:
  assumes "\<forall>u \<in> set pre. \<forall>s. simple_user_score cv w face u = Some s \<longrightarrow> s \<le> thr"
  shows "\<exists>bm' bs'. simple_scan thr cv w face (pre @ rest) bm bs
                     = simple_scan thr cv w face rest bm' bs'"
  using assms
proof (induction pre arbitrary: bm bs)
  case Nil
  then show ?case by auto
next
  case (Cons u pre)
  have rest: "\<forall>u \<in> set pre. \<forall>s. simple_user_score cv w face u = Some s \<longrightarrow> s \<le> thr"
    using Cons.prems by simp
  show ?case
  proof (cases "simple_user_score cv w face u")
    case None
    then have "simple_scan thr cv w face ((u # pre) @ rest) bm bs
                 = simple_scan thr cv w face (pre @ rest) bm bs"
      by (simp add: simple_scan_Cons del: simple_scan.simps)
    then show ?thesis using Cons.IH [OF rest, of bm bs] by simp
  next
    case (Some s)
    then have "s \<le> thr" using Cons.prems by simp
    then have "simple_scan thr cv w face ((u # pre) @ rest) bm bs
                 = simple_scan thr cv w face (pre @ rest) (if s > bs then Some u else bm)
                     (if s > bs then s else bs)"
      using Some by (simp add: simple_scan_Cons del: simple_scan.simps)
    then show ?thesis
      using Cons.IH [OF rest, of "if s > bs then Some u else bm" "if s > bs then s else bs"]
      by simp
  qed
qed

lemma simple_scan_first_above:
  assumes "\<forall>u \<in> set pre. \<forall>s. simple_user_score cv w face u = Some s \<longrightarrow> s \<le> thr"
    and "simple_user_score cv w face d = Some sd" and "thr < sd"
  shows "simple_scan thr cv w face (pre @ d # post) bm bs = (True, Some (user_info d))"
proof -
  obtain bm' bs' where "simple_scan thr cv w face (pre @ d # post) bm bs
                          = simple_scan thr cv w face (d # post) bm' bs'"
    using simple_scan_skip [OF assms(1)] by blast
  then show ?thesis using assms(2,3) by (simp add: simple_scan_Cons del: simple_scan.simps)
qed

lemma simple_scan_none_above:
  assumes "\<forall>u \<in> set us. \<forall>s. simple_user_score cv w face u = Some s \<longrightarrow> s \<le> thr"
  shows "simple_scan thr cv w face us bm bs = (False, None)"
proof -
  obtain bm' bs' where "simple_scan thr cv w face (us @ []) bm bs
                          = simple_scan thr cv w face [] bm' bs'"
    using simple_scan_skip [OF assms] by blast
  then show ?thesis by simp
qed

text \<open>
  The best-of-corpus loop of the advanced module. Processing a user changes the cache at
  that user's id only, so with distinct ids the similarity of every later user is the one
  computed from the cache the scan started with.
\<close>

lemma adv_compare_faces_nonneg:
  assumes "adv_compare_faces fr e1 e2 t = Inr (m, s)"
  shows "0 \<le> s"
  using assms
  by (auto simp: adv_compare_faces_def try_except_def bind_res_def Let_def
      split: option.splits sum.splits)

lemma adv_user_score_nonneg:
  assumes "adv_user_score cv fr w known enc thr u = Inr (Some s)"
  shows "0 \<le> s"
  using assms
  by (auto simp: adv_user_score_def bind_res_def
      split: option.splits sum.splits prod.splits dest: adv_compare_faces_nonneg)

lemma adv_stored_encoding_cache:
  assumes "adv_stored_encoding cv fr w k uid path = Inr (Some (se, k'))"
  shows "\<forall>i. i \<noteq> uid \<longrightarrow> k' i = k i"
  using assms
  by (auto simp: adv_stored_encoding_def bind_res_def split: option.splits sum.splits)

lemma adv_stored_encoding_agree:
  assumes "k uid = known uid"
  shows "map_sum id (map_option fst) (adv_stored_encoding cv fr w k uid path)
           = map_sum id (map_option fst) (adv_stored_encoding cv fr w known uid path)"
  using assms
  by (auto simp: adv_stored_encoding_def bind_res_def split: option.splits sum.splits)


lemma adv_user_score_agree:
  assumes "k (user_id u) = known (user_id u)"
  shows "adv_user_score cv fr w k enc thr u = adv_user_score cv fr w known enc thr u"
  using assms
  by (auto simp: adv_user_score_def adv_stored_encoding_def bind_res_def
      split: option.splits sum.splits)

lemma adv_scan_step:
  assumes "adv_user_score cv fr w k enc thr u = Inr so"
  shows "\<exists>k'. (\<forall>i. i \<noteq> user_id u \<longrightarrow> k' i = k i)
            \<and> adv_scan thr cv fr w enc (u # us) k bm bs
                = adv_scan thr cv fr w enc us k'
                    (case so of None \<Rightarrow> bm
                     | Some s \<Rightarrow> if s > bs then Some (username_or ''Unknown User'' u) else bm)
                    (case so of None \<Rightarrow> bs | Some s \<Rightarrow> if s > bs then s else bs)"
proof (cases "usable_path w (user_image_path u)")
  case None
  then have "so = None" using assms by (simp add: adv_user_score_def)
  then show ?thesis using None by auto
next
  case (Some path)
  show ?thesis
  proof (cases "adv_stored_encoding cv fr w k (user_id u) path")
    case (Inl e)
    then show ?thesis using assms Some by (simp add: adv_user_score_def bind_res_def)
  next
    case (Inr stored)
    show ?thesis
    proof (cases stored)
      case None
      then have "so = None" using assms Some Inr by (simp add: adv_user_score_def bind_res_def)
      then show ?thesis using Some Inr None by auto
    next
      case (Some pair)
      obtain se k' where pair: "pair = (se, k')" by (cases pair)
      have cache: "\<forall>i. i \<noteq> user_id u \<longrightarrow> k' i = k i"
        using adv_stored_encoding_cache [of cv fr w k "user_id u" path se k'] Inr Some pair
        by simp
      obtain m s where cmp: "adv_compare_faces fr (Some se) (Some enc) thr = Inr (m, s)"
        using adv_compare_faces_total by blast
      have so: "so = Some s"
        using assms \<open>usable_path w (user_image_path u) = Some path\<close> Inr Some pair cmp
        by (simp add: adv_user_score_def bind_res_def)
      have "adv_scan thr cv fr w enc (u # us) k bm bs
              = adv_scan thr cv fr w enc us k'
                  (if s > bs then Some (username_or ''Unknown User'' u) else bm)
                  (if s > bs then s else bs)"
        using \<open>usable_path w (user_image_path u) = Some path\<close> Inr Some pair cmp by simp
      then show ?thesis using cache so by auto
    qed
  qed
qed

lemma cache_agree_rest:
  fixes us :: "user list"
  assumes "\<forall>i. i \<noteq> uid \<longrightarrow> k' i = k i"
    and "uid \<notin> user_id ` set us"
    and "\<forall>v \<in> set us. k (user_id v) = known (user_id v)"
  shows "\<forall>v \<in> set us. k' (user_id v) = known (user_id v)"
proof
  fix v
  assume v: "v \<in> set us"
  then have "user_id v \<noteq> uid" using assms(2) by blast
  then have "k' (user_id v) = k (user_id v)" using assms(1) by simp
  then show "k' (user_id v) = known (user_id v)" using assms(3) v by simp
qed

lemma adv_scan_bound:
  assumes "distinct (map user_id us)"
    and "\<forall>u \<in> set us. k (user_id u) = known (user_id u)"
    and "\<forall>u \<in> set us. \<exists>so. adv_user_score cv fr w known enc thr u = Inr so
                            \<and> (\<forall>s. so = Some s \<longrightarrow> s \<le> bs)"
  shows "\<exists>k'. adv_scan thr cv fr w enc us k bm bs = (Inr (bm, bs), k')"
  using assms
proof (induction us arbitrary: k)
  case Nil
  then show ?case by simp
next
  case (Cons u us)
  obtain so where so: "adv_user_score cv fr w known enc thr u = Inr so"
    and le: "\<forall>s. so = Some s \<longrightarrow> s \<le> bs"
    using Cons.prems(3) by auto
  have ku: "k (user_id u) = known (user_id u)" using Cons.prems(2) by simp
  have "adv_user_score cv fr w k enc thr u = Inr so"
    using so by (simp add: adv_user_score_agree [where k = k and known = known and u = u, OF ku])
  from adv_scan_step [OF this, of us bm bs]
  obtain k' where k': "\<forall>i. i \<noteq> user_id u \<longrightarrow> k' i = k i"
    and step: "adv_scan thr cv fr w enc (u # us) k bm bs
                 = adv_scan thr cv fr w enc us k'
                     (case so of None \<Rightarrow> bm
                      | Some s \<Rightarrow> if s > bs then Some (username_or ''Unknown User'' u) else bm)
                     (case so of None \<Rightarrow> bs | Some s \<Rightarrow> if s > bs then s else bs)"
    by blast
  have same: "adv_scan thr cv fr w enc (u # us) k bm bs = adv_scan thr cv fr w enc us k' bm bs"
    using step le by (cases so) (auto simp del: adv_scan.simps)
  have agree: "\<forall>v \<in> set us. k' (user_id v) = known (user_id v)"
    using cache_agree_rest [OF k', of us known] Cons.prems(1,2) by simp
  have "distinct (map user_id us)" using Cons.prems(1) by simp
  from Cons.IH [OF this agree] Cons.prems(3)
  obtain k'' where "adv_scan thr cv fr w enc us k' bm bs = (Inr (bm, bs), k'')" by auto
  then show ?case using same by (simp del: adv_scan.simps)
qed

lemma adv_scan_find:
  assumes "distinct (map user_id (pre @ d # post))"
    and "\<forall>u \<in> set (pre @ d # post). k (user_id u) = known (user_id u)"
    and "\<forall>u \<in> set pre. \<exists>so. adv_user_score cv fr w known enc thr u = Inr so
                             \<and> (\<forall>s. so = Some s \<longrightarrow> s < sd)"
    and "adv_user_score cv fr w known enc thr d = Inr (Some sd)"
    and "\<forall>u \<in> set post. \<exists>so. adv_user_score cv fr w known enc thr u = Inr so
                              \<and> (\<forall>s. so = Some s \<longrightarrow> s \<le> sd)"
    and "bs < sd"
  shows "\<exists>k'. adv_scan thr cv fr w enc (pre @ d # post) k bm bs
                = (Inr (Some (username_or ''Unknown User'' d), sd), k')"
  using assms
proof (induction pre arbitrary: k bm bs)
  case Nil
  have kd: "k (user_id d) = known (user_id d)" using Nil.prems(2) by simp
  have "adv_user_score cv fr w k enc thr d = Inr (Some sd)"
    using Nil.prems(4) by (simp add: adv_user_score_agree [where k = k and known = known and u = d, OF kd])
  from adv_scan_step [OF this, of post bm bs]
  obtain k' where k': "\<forall>i. i \<noteq> user_id d \<longrightarrow> k' i = k i"
    and step: "adv_scan thr cv fr w enc (d # post) k bm bs
                 = adv_scan thr cv fr w enc post k'
                     (Some (username_or ''Unknown User'' d)) sd"
    using Nil.prems(6) by (auto simp del: adv_scan.simps)
  have agree: "\<forall>v \<in> set post. k' (user_id v) = known (user_id v)"
    using cache_agree_rest [OF k', of post known] Nil.prems(1,2) by simp
  have "distinct (map user_id post)" using Nil.prems(1) by simp
  from adv_scan_bound [OF this agree Nil.prems(5)]
  obtain k'' where "adv_scan thr cv fr w enc post k' (Some (username_or ''Unknown User'' d)) sd
                      = (Inr (Some (username_or ''Unknown User'' d), sd), k'')"
    by blast
  then show ?case using step by (simp del: adv_scan.simps)
next
  case (Cons u pre)
  obtain so where so: "adv_user_score cv fr w known enc thr u = Inr so"
    and lt: "\<forall>s. so = Some s \<longrightarrow> s < sd"
    using Cons.prems(3) by auto
  have ku: "k (user_id u) = known (user_id u)" using Cons.prems(2) by simp
  have "adv_user_score cv fr w k enc thr u = Inr so"
    using so by (simp add: adv_user_score_agree [where k = k and known = known and u = u, OF ku])
  from adv_scan_step [OF this, of "pre @ d # post" bm bs]
  obtain k' bm' bs' where k': "\<forall>i. i \<noteq> user_id u \<longrightarrow> k' i = k i"
    and step: "adv_scan thr cv fr w enc (u # pre @ d # post) k bm bs
                 = adv_scan thr cv fr w enc (pre @ d # post) k' bm' bs'"
    and bs': "bs' = (case so of None \<Rightarrow> bs | Some s \<Rightarrow> if s > bs then s else bs)"
    by blast
  have "bs' < sd" using bs' lt Cons.prems(6) by (cases so) auto
  moreover have "\<forall>v \<in> set (pre @ d # post). k' (user_id v) = known (user_id v)"
  proof (rule cache_agree_rest [OF k'])
    show "user_id u \<notin> user_id ` set (pre @ d # post)" using Cons.prems(1) by auto
    show "\<forall>v \<in> set (pre @ d # post). k (user_id v) = known (user_id v)"
      using Cons.prems(2) by simp
  qed
  moreover have "distinct (map user_id (pre @ d # post))" using Cons.prems(1) by simp
  moreover have "\<forall>u \<in> set pre. \<exists>so. adv_user_score cv fr w known enc thr u = Inr so
                             \<and> (\<forall>s. so = Some s \<longrightarrow> s < sd)"
    using Cons.prems(3) by simp
  ultimately obtain k'' where
    "adv_scan thr cv fr w enc (pre @ d # post) k' bm' bs'
       = (Inr (Some (username_or ''Unknown User'' d), sd), k'')"
    using Cons.IH [of k' bs' bm'] Cons.prems(4,5) by blast
  then show ?case using step by (simp del: adv_scan.simps)
qed


lemma adv_user_score_tolerance:
  "adv_user_score cv fr w known enc t u = adv_user_score cv fr w known enc t' u"
  by (auto simp: adv_user_score_def adv_compare_faces_def try_except_def bind_res_def Let_def
      split: option.splits sum.splits)

lemma adv_is_face_duplicate_best:
  assumes "find_users w = Inr (pre @ d # post)"
    and "adv_preprocess_image cv img = Some rgb_image"
    and "adv_get_face_encoding cv fr (Some rgb_image) = Some encoding"
    and "distinct (map user_id (pre @ d # post))"
    and "adv_user_score cv fr w known encoding t d = Inr (Some ad)"
    and "\<forall>u \<in> set pre. \<exists>so. adv_user_score cv fr w known encoding t u = Inr so
                             \<and> (\<forall>s. so = Some s \<longrightarrow> s < ad)"
    and "\<forall>u \<in> set post. \<exists>so. adv_user_score cv fr w known encoding t u = Inr so
                              \<and> (\<forall>s. so = Some s \<longrightarrow> s \<le> ad)"
  shows "fst (adv_is_face_duplicate_at threshold cv fr w known img)
           = Inr (ad \<ge> threshold, Some (username_or ''Unknown User'' d))"
proof -
  have dup: "adv_user_score cv fr w known encoding threshold d = Inr (Some ad)"
    using assms(5) adv_user_score_tolerance [of cv fr w known encoding threshold d t] by simp
  have pre: "\<forall>u \<in> set pre. \<exists>so. adv_user_score cv fr w known encoding threshold u = Inr so
                             \<and> (\<forall>s. so = Some s \<longrightarrow> s < ad)"
    using assms(6) adv_user_score_tolerance [of cv fr w known encoding threshold _ t] by simp
  have post: "\<forall>u \<in> set post. \<exists>so. adv_user_score cv fr w known encoding threshold u = Inr so
                              \<and> (\<forall>s. so = Some s \<longrightarrow> s \<le> ad)"
    using assms(7) adv_user_score_tolerance [of cv fr w known encoding threshold _ t] by simp
  have "0 \<le> ad" using adv_user_score_nonneg [OF dup] .
  then have start: "- 1 < ad" by simp
  have same: "\<forall>u \<in> set (pre @ d # post). known (user_id u) = known (user_id u)" by simp
  from adv_scan_find [OF assms(4) same pre dup post start, of None]
  obtain k' where "adv_scan threshold cv fr w encoding (pre @ d # post) known None (- 1)
                     = (Inr (Some (username_or ''Unknown User'' d), ad), k')"
    by blast
  then show ?thesis
    using assms(1-3) by (simp add: adv_is_face_duplicate_at_def del: adv_scan.simps)
qed

text \<open>
  C6, as amended. Let the corpus hold an identity \<open>d\<close> whose similarity to the query is the
  highest. The early-exit scan (simple module) returns \<open>d\<close> for a threshold below that
  similarity provided that no identity enumerated before \<open>d\<close> clears the threshold as
  well, and reports no duplicate for a threshold above it. The best-of-corpus scan
  (advanced module, distinct user ids, \<open>d\<close> strictly ahead of every identity before it)
  names \<open>d\<close> as the best match and reports a duplicate for a threshold below its similarity
  and none for a threshold above it.
\<close>

theorem duplicate_scan_threshold:
  assumes "find_users w = Inr (pre @ d # post)"
    and "simple_extract_face cv img False True True = Some input_face"
    and "simple_user_score cv w input_face d = Some sd"
    and "\<forall>u \<in> set pre. \<forall>s. simple_user_score cv w input_face u = Some s \<longrightarrow> s \<le> lo"
    and "\<forall>u \<in> set (pre @ post). \<forall>s. simple_user_score cv w input_face u = Some s \<longrightarrow> s \<le> sd"
    and "lo < sd" and "sd < hi"
    and "adv_preprocess_image cv img = Some rgb_image"
    and "adv_get_face_encoding cv fr (Some rgb_image) = Some encoding"
    and "distinct (map user_id (pre @ d # post))"
    and "adv_user_score cv fr w known encoding lo' d = Inr (Some ad)"
    and "\<forall>u \<in> set pre. \<exists>so. adv_user_score cv fr w known encoding lo' u = Inr so
                             \<and> (\<forall>s. so = Some s \<longrightarrow> s < ad)"
    and "\<forall>u \<in> set post. \<exists>so. adv_user_score cv fr w known encoding lo' u = Inr so
                              \<and> (\<forall>s. so = Some s \<longrightarrow> s \<le> ad)"
    and "lo' < ad" and "ad < hi'"
  shows "simple_is_face_duplicate_at lo cv w img = Inr (True, Some (user_info d))
       \<and> simple_is_face_duplicate_at hi cv w img = Inr (False, None)
       \<and> fst (adv_is_face_duplicate_at lo' cv fr w known img)
           = Inr (True, Some (username_or ''Unknown User'' d))
       \<and> fst (adv_is_face_duplicate_at hi' cv fr w known img)
           = Inr (False, Some (username_or ''Unknown User'' d))"
proof (intro conjI)
  have "simple_scan lo cv w input_face (pre @ d # post) None 0 = (True, Some (user_info d))"
    using simple_scan_first_above [OF assms(4) assms(3) assms(6)] .
  then show "simple_is_face_duplicate_at lo cv w img = Inr (True, Some (user_info d))"
    using assms(1,2)
    by (simp add: simple_is_face_duplicate_at_def try_except_def bind_res_def
        del: simple_scan.simps)
next
  have "\<forall>u \<in> set (pre @ d # post). \<forall>s. simple_user_score cv w input_face u = Some s \<longrightarrow> s \<le> hi"
    using assms(3,5,7) by fastforce
  then have "simple_scan hi cv w input_face (pre @ d # post) None 0 = (False, None)"
    by (rule simple_scan_none_above)
  then show "simple_is_face_duplicate_at hi cv w img = Inr (False, None)"
    using assms(1,2)
    by (simp add: simple_is_face_duplicate_at_def try_except_def bind_res_def
        del: simple_scan.simps)
next
  show "fst (adv_is_face_duplicate_at lo' cv fr w known img)
          = Inr (True, Some (username_or ''Unknown User'' d))"
    using adv_is_face_duplicate_best [OF assms(1,8-13), of lo'] assms(14) by simp
next
  show "fst (adv_is_face_duplicate_at hi' cv fr w known img)
          = Inr (False, Some (username_or ''Unknown User'' d))"
    using adv_is_face_duplicate_best [OF assms(1,8-13), of hi'] assms(15) by simp
qed


text \<open>
  The corpus of \<open>test_world\<close> is Alice, then Bob; the query has top-left pixel 9, one away
  from Bob's 10 and six away from Alice's 3.
\<close>

lemmas scan_eval_defs = test_cv_def test_fr_def test_world_def alice_def bob_def np_slice_def
  px_def bind_res_def try_except_def preprocess_image_def preprocess_image_body_def
  simple_extract_face_def simple_extract_face_body_def hist_score_def
  simple_compute_similarity_def simple_compute_similarity_body_def usable_path_def
  simple_user_similarity_def simple_user_score_def user_info_def
  adv_preprocess_image_def adv_get_face_encoding_def adv_get_face_encoding_body_def
  adv_compare_faces_def adv_stored_encoding_def adv_user_score_def username_or_def

theorem duplicate_scan_threshold_witness:
  "find_users test_world = Inr ([alice] @ bob # [])
   \<and> simple_user_score test_cv test_world [[9]] alice = Some (7 / 10)
   \<and> simple_user_score test_cv test_world [[9]] bob = Some (19 / 20)
   \<and> adv_user_score test_cv test_fr test_world Map.empty 9 (6 / 10) alice = Inr (Some (4 / 10))
   \<and> adv_user_score test_cv test_fr test_world Map.empty 9 (6 / 10) bob = Inr (Some (9 / 10))
   \<and> simple_is_face_duplicate_at (8 / 10) test_cv test_world (Some [[9, 0], [0, 0]])
       = Inr (True, Some (user_info bob))
   \<and> simple_is_face_duplicate_at (97 / 100) test_cv test_world (Some [[9, 0], [0, 0]])
       = Inr (False, None)
   \<and> fst (adv_is_face_duplicate_at (6 / 10) test_cv test_fr test_world Map.empty
            (Some [[9, 0], [0, 0]]))
       = Inr (True, Some (username_or ''Unknown User'' bob))
   \<and> fst (adv_is_face_duplicate_at (95 / 100) test_cv test_fr test_world Map.empty
            (Some [[9, 0], [0, 0]]))
       = Inr (False, Some (username_or ''Unknown User'' bob))"
proof -
  have users: "find_users test_world = Inr ([alice] @ bob # [])" by (simp add: test_world_def)
  have face: "simple_extract_face test_cv (Some [[9, 0], [0, 0]]) False True True = Some [[9]]"
    by (simp add: scan_eval_defs)
  have sa: "simple_user_score test_cv test_world [[9]] alice = Some (7 / 10)"
    by (simp add: scan_eval_defs)
  have sb: "simple_user_score test_cv test_world [[9]] bob = Some (19 / 20)"
    by (simp add: scan_eval_defs)
  have s_pre: "\<forall>u \<in> set [alice]. \<forall>s. simple_user_score test_cv test_world [[9]] u = Some s
                 \<longrightarrow> s \<le> 8 / 10"
    using sa by simp
  have s_all: "\<forall>u \<in> set ([alice] @ []). \<forall>s. simple_user_score test_cv test_world [[9]] u = Some s
                 \<longrightarrow> s \<le> 19 / 20"
    using sa by simp
  have lo: "(8 / 10 :: real) < 19 / 20" and hi: "(19 / 20 :: real) < 97 / 100" by simp_all
  have rgb: "adv_preprocess_image test_cv (Some [[9, 0], [0, 0]]) = Some [[9, 0], [0, 0]]"
    by (simp add: scan_eval_defs)
  have enc: "adv_get_face_encoding test_cv test_fr (Some [[9, 0], [0, 0]]) = Some 9"
    by (simp add: scan_eval_defs)
  have ids: "distinct (map user_id ([alice] @ bob # []))" by (simp add: alice_def bob_def)
  have aa: "adv_user_score test_cv test_fr test_world Map.empty 9 (6 / 10) alice
              = Inr (Some (4 / 10))"
    by (simp add: scan_eval_defs)
  have ab: "adv_user_score test_cv test_fr test_world Map.empty 9 (6 / 10) bob
              = Inr (Some (9 / 10))"
    by (simp add: scan_eval_defs)
  have a_pre: "\<forall>u \<in> set [alice]. \<exists>so.
                 adv_user_score test_cv test_fr test_world Map.empty 9 (6 / 10) u = Inr so
                 \<and> (\<forall>s. so = Some s \<longrightarrow> s < 9 / 10)"
    using aa by simp
  have a_post: "\<forall>u \<in> set []. \<exists>so.
                 adv_user_score test_cv test_fr test_world Map.empty 9 (6 / 10) u = Inr so
                 \<and> (\<forall>s. so = Some s \<longrightarrow> s \<le> 9 / 10)"
    by simp
  have lo': "(6 / 10 :: real) < 9 / 10" and hi': "(9 / 10 :: real) < 95 / 100" by simp_all
  note th = duplicate_scan_threshold
    [OF users face sb s_pre s_all lo hi rgb enc ids ab a_pre a_post lo' hi']
  show ?thesis using users sa sb aa ab th by blast
qed

text \<open>
  C6 as stated fails for the early-exit scan: with the threshold 0.05 of the source, below
  the similarity 0.95 of the duplicate Bob, \<^verbatim>\<open>is_face_duplicate\<close> returns Alice, who is
  enumerated first and whose similarity 0.7 clears the threshold too.
\<close>

theorem early_exit_returns_first:
  "simple_user_score test_cv test_world [[9]] alice = Some (7 / 10)
   \<and> simple_user_score test_cv test_world [[9]] bob = Some (19 / 20)
   \<and> (5 / 100 :: real) < 19 / 20
   \<and> simple_is_face_duplicate test_cv test_world (Some [[9, 0], [0, 0]])
       = Inr (True, Some ''alice'')
   \<and> user_info bob = ''bob''"
  by (simp add: scan_eval_defs simple_is_face_duplicate_def simple_is_face_duplicate_at_def)

end
